theory Spec2Isabelle
  imports Complex_Main
begin

section \<open>AISC 360 checks for W sections: the validator of \<open>aisc_w_validator.py\<close>\<close>

text \<open>
  The validator computes with Python floats. The embedding reads every float as a real
  number: \<open>+\<close>, \<open>-\<close>, \<open>*\<close>, \<open>abs\<close>, \<open>min\<close>, \<open>max\<close> and the comparisons are the exact
  ones, \<open>x ** 2\<close> is \<open>x\<^sup>2\<close>, \<open>0.658 ** x\<close> is \<open>0.658 powr x\<close> and \<open>math.pi\<close> is \<open>pi\<close>.
  Rounding, overflow, infinities and NaN are outside the model. What Python raises is kept:
  a float division by zero raises \<open>ZeroDivisionError\<close> and \<open>math.sqrt\<close> of a negative
  number raises \<open>ValueError\<close>; every function that can raise returns
  \<open>py_error + result\<close>, and the operations are bound in Python's evaluation order.
\<close>

subsection \<open>Exceptions\<close>

datatype py_error = ZeroDivisionError | ValueError

definition py_bind :: "py_error + 'a \<Rightarrow> ('a \<Rightarrow> py_error + 'b) \<Rightarrow> py_error + 'b" where
  "py_bind m f = (case m of Inl e \<Rightarrow> Inl e | Inr v \<Rightarrow> f v)"

definition py_div :: "real \<Rightarrow> real \<Rightarrow> py_error + real" where
  "py_div x y = (if y = 0 then Inl ZeroDivisionError else Inr (x / y))"

definition py_sqrt :: "real \<Rightarrow> py_error + real" where
  "py_sqrt x = (if x < 0 then Inl ValueError else Inr (sqrt x))"

subsection \<open>Inputs\<close>

record PropiedadesPerfilW =
  d :: real
  bf :: real
  tf :: real
  tw :: real
  A :: real
  Ix :: real
  Sx :: real
  Zx :: real
  rx :: real
  Iy :: real
  Sy :: real
  Zy :: real
  ry :: real
  ho :: real
  J :: real
  Cw :: real
  Fy :: real
  Fu :: real
  E :: real

record CondicionesCarga =
  Pu :: real
  Mux :: real
  Muy :: real
  L :: real
  Lx :: real
  Ly :: real
  Lt :: real
  Cb :: real

subsection \<open>Result dictionaries\<close>

text \<open>
  Each check returns a dictionary with fixed keys. Keys shared by several dictionaries
  (\<open>estado\<close>, \<open>ecuaciones_ref\<close>, \<open>RDC\<close>, \<open>Pu_aplicada\<close>, \<open>Mn\<close>, \<open>Mb\<close>) sit in a common
  parent record. Two keys are renamed because the name is taken: \<open>Lt\<close> of the strong-axis
  result is \<open>Lt_res\<close>, and \<open>Pc\<close> of the interaction result is \<open>Pc_int\<close>.
  The strings of the source (\<open>'PASA'\<close>, \<open>'esbelta'\<close>, ...) stay strings.
\<close>

record Relaciones =
  lambda_f :: real
  lambda_w :: real
  lambda_p_f_comp :: real
  lambda_r_f_comp :: real
  lambda_p_f_flex :: real
  lambda_r_f_flex :: real
  lambda_p_w_flex :: real
  lambda_r_w_flex :: real

record Clasificacion =
  patin_compresion :: string
  patin_flexion :: string
  alma_flexion :: string
  relaciones :: Relaciones

record Resultado =
  estado :: string
  ecuaciones_ref :: "string list"

record Verificacion = Resultado +
  RDC :: real

record VerificacionAxial = Verificacion +
  Pu_aplicada :: real

record ResTension = VerificacionAxial +
  Pn_fluencia :: real
  Pt_fluencia :: real
  Pn_ruptura :: real
  Pt_ruptura :: real
  Pt_gobernante :: real
  modo_gobernante :: string

subsection \<open>Section classification (Tables B4.1a and B4.1b)\<close>

text \<open>\<open>math.sqrt(self.perfil.E / self.perfil.Fy)\<close>, which the source writes out at each use.\<close>

definition raiz_E_Fy :: "PropiedadesPerfilW \<Rightarrow> py_error + real" where
  "raiz_E_Fy p = py_bind (py_div (E p) (Fy p)) py_sqrt"

definition clasificar_elemento :: "real \<Rightarrow> real \<Rightarrow> real \<Rightarrow> string" where
  "clasificar_elemento lambda_val lambda_p lambda_r =
     (if lambda_val \<le> lambda_p then ''compacta''
      else if lambda_val \<le> lambda_r then ''no_compacta''
      else ''esbelta'')"

definition clasificar_seccion :: "PropiedadesPerfilW \<Rightarrow> py_error + Clasificacion" where
  "clasificar_seccion p =
     py_bind (py_div (bf p) (2 * tf p)) (\<lambda>lam_f.
     py_bind (py_div (d p - 2 * tf p) (tw p)) (\<lambda>lam_w.
     py_bind (raiz_E_Fy p) (\<lambda>s.
       let lam_p_f_comp = 0.56 * s;
           lam_r_f_comp = 1.49 * s;
           lam_p_f_flex = 0.38 * s;
           lam_r_f_flex = 1.0 * s;
           lam_p_w_flex = 3.76 * s;
           lam_r_w_flex = 5.70 * s
       in Inr \<lparr>patin_compresion = clasificar_elemento lam_f lam_p_f_comp lam_r_f_comp,
               patin_flexion = clasificar_elemento lam_f lam_p_f_flex lam_r_f_flex,
               alma_flexion = clasificar_elemento lam_w lam_p_w_flex lam_r_w_flex,
               relaciones = \<lparr>lambda_f = lam_f, lambda_w = lam_w,
                              lambda_p_f_comp = lam_p_f_comp, lambda_r_f_comp = lam_r_f_comp,
                              lambda_p_f_flex = lam_p_f_flex, lambda_r_f_flex = lam_r_f_flex,
                              lambda_p_w_flex = lam_p_w_flex, lambda_r_w_flex = lam_r_w_flex\<rparr>\<rparr>)))"

subsection \<open>Chapter D: tension\<close>

definition verificar_tension :: "PropiedadesPerfilW \<Rightarrow> CondicionesCarga \<Rightarrow> py_error + ResTension" where
  "verificar_tension p c =
     (let phi_t_fluencia = 0.9;
          Pn_fl = Fy p * A p;
          Pt_fl = phi_t_fluencia * Pn_fl;
          Ae_t = A p;
          Pn_ru = Fu p * Ae_t;
          phi_t_ruptura = 0.75;
          Pt_ru = phi_t_ruptura * Pn_ru;
          Pt = min Pt_fl Pt_ru
      in py_bind (py_div \<bar>Pu c\<bar> Pt) (\<lambda>rdc.
         Inr \<lparr>estado = (if rdc \<le> 1.0 then ''PASA'' else ''FALLA''),
              ecuaciones_ref = [''D2-1'', ''D2-2''],
              RDC = rdc,
              Pu_aplicada = Pu c,
              Pn_fluencia = Pn_fl,
              Pt_fluencia = Pt_fl,
              Pn_ruptura = Pn_ru,
              Pt_ruptura = Pt_ru,
              Pt_gobernante = Pt,
              modo_gobernante = (if Pt_fl < Pt_ru then ''fluencia'' else ''ruptura'')\<rparr>))"

subsection \<open>Chapter E: compression\<close>

record ResCompresion = VerificacionAxial +
  KL_r_x :: real
  KL_r_y :: real
  KL_r_gobernante :: real
  Fe :: real
  lambda_c :: real
  Fcr :: real
  Pn :: real
  Pc :: real
  modo_pandeo :: string

record ResCompresionEsbeltos = ResCompresion +
  Ae :: real
  Fy_mod :: real
  be_patin :: real
  be_alma :: real
  tipo_analisis :: string

text \<open>E3: flexural buckling of members without slender elements.\<close>

definition verificar_compresion_no_esbeltos ::
    "PropiedadesPerfilW \<Rightarrow> CondicionesCarga \<Rightarrow> py_error + ResCompresion" where
  "verificar_compresion_no_esbeltos p c =
     py_bind (py_div (Lx c) (rx p)) (\<lambda>klx.
     py_bind (py_div (Ly c) (ry p)) (\<lambda>kly.
     let kl_r = max klx kly in
     py_bind (py_div (pi\<^sup>2 * E p) (kl_r\<^sup>2)) (\<lambda>fe.
     py_bind (py_div (Fy p) fe) (\<lambda>lam_c.
     py_bind (raiz_E_Fy p) (\<lambda>s.
     let inelastico = (kl_r \<le> 4.71 * s \<or> lam_c \<le> 2.25);
         fcr = (if inelastico then (0.658 powr lam_c) * Fy p else 0.877 * fe);
         modo = (if inelastico then ''inelastico'' else ''elastico'');
         pn = fcr * A p;
         phi_c = 0.9;
         pc = phi_c * pn
     in py_bind (py_div \<bar>Pu c\<bar> pc) (\<lambda>rdc.
        Inr \<lparr>estado = (if rdc \<le> 1.0 then ''PASA'' else ''FALLA''),
             ecuaciones_ref =
               [''E3-1'', (if modo = ''inelastico'' then ''E3-2'' else ''E3-3''), ''E3-4''],
             RDC = rdc,
             Pu_aplicada = \<bar>Pu c\<bar>,
             KL_r_x = klx, KL_r_y = kly, KL_r_gobernante = kl_r,
             Fe = fe, lambda_c = lam_c, Fcr = fcr, Pn = pn, Pc = pc,
             modo_pandeo = modo\<rparr>))))))"

text \<open>
  E7, lines 296 to 310: the effective width of the flange. \<open>fn\<close> is the source's \<open>Fn\<close>,
  which it reads from the \<open>'Pc'\<close> entry of the E3 result.
\<close>

definition be_patin_esbeltos ::
    "PropiedadesPerfilW \<Rightarrow> Clasificacion \<Rightarrow> real \<Rightarrow> py_error + real" where
  "be_patin_esbeltos p clas fn =
     (let c1 = 0.22; c2 = 1.49 in
      if patin_compresion clas = ''esbelta'' then
        py_bind (py_div (bf p) (2 * tf p)) (\<lambda>lam_f.
        py_bind (raiz_E_Fy p) (\<lambda>s.
        let lam_r_f = 1.03 * s in
        py_bind (py_div lam_r_f lam_f) (\<lambda>q.
        let fcl0 = (c2 * q\<^sup>2) * Fy p;
            fcl = (if fcl0 > Fy p then Fy p else fcl0)
        in if lam_f > lam_r_f then
             py_bind (py_div fcl fn) (\<lambda>r1.
             py_bind (py_sqrt r1) (\<lambda>s1.
             py_bind (py_div fcl fn) (\<lambda>r2.
             py_bind (py_sqrt r2) (\<lambda>s2.
               Inr (bf p * (1 - c1 * s1) * s2)))))
           else Inr (bf p))))
      else Inr (bf p))"

text \<open>E7, lines 313 to 327: the effective width of the web.\<close>

definition be_alma_esbeltos ::
    "PropiedadesPerfilW \<Rightarrow> Clasificacion \<Rightarrow> real \<Rightarrow> py_error + real" where
  "be_alma_esbeltos p clas fn =
     (let c1 = 0.22; c2 = 1.49 in
      if alma_flexion clas = ''esbelta'' then
        py_bind (py_div (d p - 2 * tf p) (tw p)) (\<lambda>lam_w.
        py_bind (raiz_E_Fy p) (\<lambda>s.
        let lam_r_w = 5.70 * s in
        py_bind (py_div lam_r_w lam_w) (\<lambda>q.
        let fcl0 = (c2 * q\<^sup>2) * Fy p;
            fcl = (if fcl0 > Fy p then Fy p else fcl0)
        in if lam_w > lam_r_w then
             py_bind (py_div fcl fn) (\<lambda>r1.
             py_bind (py_sqrt r1) (\<lambda>s1.
             py_bind (py_div fcl fn) (\<lambda>r2.
             py_bind (py_sqrt r2) (\<lambda>s2.
               Inr ((d p - 2 * tf p) * (1 - c1 * s1) * s2)))))
           else Inr (d p - 2 * tf p))))
      else Inr (d p - 2 * tf p))"

text \<open>
  E7, lines 343 to 391: global buckling with the effective area \<open>ae\<close> and the modified
  yield stress \<open>fy_mod\<close>.
\<close>

definition pandeo_global_esbeltos ::
    "PropiedadesPerfilW \<Rightarrow> CondicionesCarga \<Rightarrow> real \<Rightarrow> real \<Rightarrow> real \<Rightarrow> real
       \<Rightarrow> py_error + ResCompresionEsbeltos" where
  "pandeo_global_esbeltos p c ae fy_mod be_p be_a =
     py_bind (py_div (Lx c) (rx p)) (\<lambda>klx.
     py_bind (py_div (Ly c) (ry p)) (\<lambda>kly.
     let kl_r = max klx kly in
     py_bind (py_div (pi\<^sup>2 * E p) (kl_r\<^sup>2)) (\<lambda>fe.
     py_bind (py_div fy_mod fe) (\<lambda>r.
     py_bind (py_sqrt r) (\<lambda>lam_c.
     py_bind (py_div (E p) fy_mod) (\<lambda>r'.
     py_bind (py_sqrt r') (\<lambda>s.
     let inelastico = (kl_r \<le> 4.71 * s \<or> lam_c \<le> 2.25);
         fcr = (if inelastico then (0.658 powr (lam_c\<^sup>2)) * fy_mod else 0.877 * fe);
         modo = (if inelastico then ''inelastico'' else ''elastico'');
         pn = fcr * ae;
         phi_c = 0.9;
         pc = phi_c * pn
     in py_bind (py_div \<bar>Pu c\<bar> pc) (\<lambda>rdc.
        Inr \<lparr>estado = (if rdc \<le> 1.0 then ''PASA'' else ''FALLA''),
             ecuaciones_ref = [''E7-1'', ''E7-2'', ''E7-3'', ''E7-5''],
             RDC = rdc,
             Pu_aplicada = \<bar>Pu c\<bar>,
             KL_r_x = klx, KL_r_y = kly, KL_r_gobernante = kl_r,
             Fe = fe, lambda_c = lam_c, Fcr = fcr, Pn = pn, Pc = pc,
             modo_pandeo = modo,
             Ae = ae, Fy_mod = fy_mod, be_patin = be_p, be_alma = be_a,
             tipo_analisis = ''elementos_esbeltos''\<rparr>))))))))"

text \<open>E7: members with slender elements.\<close>

definition verificar_compresion_esbeltos ::
    "PropiedadesPerfilW \<Rightarrow> CondicionesCarga \<Rightarrow> py_error + ResCompresionEsbeltos" where
  "verificar_compresion_esbeltos p c =
     py_bind (clasificar_seccion p) (\<lambda>clas.
     py_bind (verificar_compresion_no_esbeltos p c) (\<lambda>e3.
     let fn = Pc e3 in
     py_bind (be_patin_esbeltos p clas fn) (\<lambda>be_p.
     py_bind (be_alma_esbeltos p clas fn) (\<lambda>be_a.
     let ae0 = A p - 2 * (bf p - be_p) * tf p - (d p - 2 * tf p - be_a) * tw p;
         ae = (if ae0 > A p then A p else ae0)
     in py_bind (py_div ae (A p)) (\<lambda>q.
        let fy_mod = Fy p * q
        in pandeo_global_esbeltos p c ae fy_mod be_p be_a)))))"

datatype ResultadoCompresion = NoEsbeltos ResCompresion | Esbeltos ResCompresionEsbeltos

text \<open>The \<open>['Pc']\<close> lookup on whichever dictionary the compression check returned.\<close>

definition Pc_de :: "ResultadoCompresion \<Rightarrow> real" where
  "Pc_de r = (case r of NoEsbeltos e3 \<Rightarrow> Pc e3 | Esbeltos e7 \<Rightarrow> Pc e7)"

definition verificar_compresion ::
    "PropiedadesPerfilW \<Rightarrow> CondicionesCarga \<Rightarrow> py_error + ResultadoCompresion" where
  "verificar_compresion p c =
     py_bind (clasificar_seccion p) (\<lambda>clas.
       if patin_compresion clas = ''esbelta'' \<or> alma_flexion clas = ''esbelta''
       then py_bind (verificar_compresion_esbeltos p c) (\<lambda>r. Inr (Esbeltos r))
       else py_bind (verificar_compresion_no_esbeltos p c) (\<lambda>r. Inr (NoEsbeltos r)))"

subsection \<open>Chapter F: flexure\<close>

record ResFlexion = Verificacion +
  Mn :: real
  Mb :: real
  estado_limite :: string
  clasificacion :: string

record ResFlexionFuerte = ResFlexion +
  Lp :: real
  Lr :: real
  Lt_res :: real
  rts :: real
  Mux_aplicada :: real

record ResFlexionDebil = ResFlexion +
  Muy_aplicada :: real

text \<open>Line 420: the effective radius of gyration \<open>rts\<close>.\<close>

definition rts_F2_7 :: "PropiedadesPerfilW \<Rightarrow> py_error + real" where
  "rts_F2_7 p =
     py_bind (py_sqrt (Iy p * Cw p)) (\<lambda>r.
     py_bind (py_div r (Sx p)) py_sqrt)"

text \<open>Lines 423 to 428: the limiting length \<open>Lr\<close> (equation F2-6), with \<open>c = 1.0\<close>.\<close>

definition Lr_F2_6 :: "PropiedadesPerfilW \<Rightarrow> real \<Rightarrow> py_error + real" where
  "Lr_F2_6 p rts' =
     (let c = 1.0 in
      py_bind (py_div (E p) (0.7 * Fy p)) (\<lambda>k.
      py_bind (py_div (J p * c) (Sx p * ho p)) (\<lambda>x1.
      py_bind (py_div (J p * c) (Sx p * ho p)) (\<lambda>x2.
      py_bind (py_div (0.7 * Fy p) (E p)) (\<lambda>a.
      py_bind (py_sqrt (x2\<^sup>2 + 6.76 * a\<^sup>2)) (\<lambda>s1.
      py_bind (py_sqrt (x1 + s1)) (\<lambda>s2.
        Inr (1.95 * rts' * k * s2))))))))"

text \<open>Lines 440 and 441: the nominal moment of equation F2-2 as the source writes it.\<close>

definition Mn_F2_2 ::
    "PropiedadesPerfilW \<Rightarrow> CondicionesCarga \<Rightarrow> real \<Rightarrow> real \<Rightarrow> py_error + real" where
  "Mn_F2_2 p c lp lr =
     (let mp = Fy p * Zx p in
      py_bind (py_div ((mp - 0.7 * Fy p * Sx p) * (Lt c - lp)) (lr - lp)) (\<lambda>q.
        Inr (Cb c * (mp - q))))"

text \<open>Lines 447 to 452: the nominal moment of equation F2-3, capped at \<open>Fy * Zx\<close>.\<close>

definition Mn_F2_3 ::
    "PropiedadesPerfilW \<Rightarrow> CondicionesCarga \<Rightarrow> real \<Rightarrow> py_error + real" where
  "Mn_F2_3 p c rts' =
     (let c' = 1.0 in
      py_bind (py_div (Lt c) rts') (\<lambda>u1.
      py_bind (py_div (Cb c * pi\<^sup>2 * E p) (u1\<^sup>2)) (\<lambda>t1.
      py_bind (py_div (J p * c') (Sx p * ho p)) (\<lambda>x.
      py_bind (py_div (Lt c) rts') (\<lambda>u2.
      py_bind (py_sqrt (1 + 0.078 * x * u2\<^sup>2)) (\<lambda>s.
        let fcr = t1 * s;
            mn = fcr * Sx p
        in Inr (if mn > Fy p * Zx p then Fy p * Zx p else mn)))))))"

text \<open>F2: flexure about the strong axis.\<close>

definition verificar_flexion_eje_fuerte ::
    "PropiedadesPerfilW \<Rightarrow> CondicionesCarga \<Rightarrow> py_error + ResFlexionFuerte" where
  "verificar_flexion_eje_fuerte p c =
     py_bind (clasificar_seccion p) (\<lambda>clas.
     py_bind (raiz_E_Fy p) (\<lambda>s.
     let lp = 1.76 * ry p * s in
     py_bind (rts_F2_7 p) (\<lambda>rts'.
     py_bind (Lr_F2_6 p rts') (\<lambda>lr.
     py_bind
       (if Lt c \<le> lp then
          Inr (Fy p * Zx p, ''fluencia'', ''F2-1'')
        else if Lt c < lr \<and> Lt c \<le> lr then
          py_bind (Mn_F2_2 p c lp lr) (\<lambda>mn. Inr (mn, ''pandeo_LT_inelastico'', ''F2-2''))
        else
          py_bind (Mn_F2_3 p c rts') (\<lambda>mn. Inr (mn, ''pandeo_LT_elastico'', ''F2-3'')))
       (\<lambda>(mn, el, ecuacion_ref).
     let phi_b = 0.9;
         mb = phi_b * mn
     in py_bind (py_div \<bar>Mux c\<bar> mb) (\<lambda>rdc.
        Inr \<lparr>estado = (if rdc \<le> 1.0 then ''PASA'' else ''FALLA''),
             ecuaciones_ref = [ecuacion_ref, ''F2-5'', ''F2-6''],
             RDC = rdc,
             Mn = mn, Mb = mb,
             estado_limite = el,
             clasificacion = patin_flexion clas,
             Lp = lp, Lr = lr, Lt_res = Lt c, rts = rts',
             Mux_aplicada = Mux c\<rparr>))))))"

text \<open>F6: flexure about the weak axis.\<close>

definition verificar_flexion_eje_debil ::
    "PropiedadesPerfilW \<Rightarrow> CondicionesCarga \<Rightarrow> py_error + ResFlexionDebil" where
  "verificar_flexion_eje_debil p c =
     py_bind (clasificar_seccion p) (\<lambda>clas.
     let b = bf p;
         tf' = tf p;
         rel = relaciones clas;
         lambda_pf = lambda_p_f_flex rel;
         lambda_rf = lambda_r_f_flex rel;
         lambda1 = lambda_f rel
     in
     py_bind (py_div b tf') (\<lambda>q.
     py_bind (py_div (0.70 * E p) (q\<^sup>2)) (\<lambda>fcr.
     py_bind
       (if patin_flexion clas = ''compacta'' then
          Inr (Fy p * Zy p, ''fluencia'', ''F6-1'')
        else if patin_flexion clas = ''no_compacta'' then
          (let mp = Fy p * Zy p in
           py_bind (py_div (lambda1 - lambda_pf) (lambda_rf - lambda_pf)) (\<lambda>t.
             Inr (mp - (mp - 0.70 * Sy p * Sy p) * t, ''no_compacta'', ''F6-2'')))
        else
          Inr (fcr * Sy p, ''esbelta'', ''F6-3''))
       (\<lambda>(mn, el, ecuacion_ref).
     let phi_b = 0.9;
         mb = phi_b * mn
     in py_bind (py_div \<bar>Muy c\<bar> mb) (\<lambda>rdc.
        Inr \<lparr>estado = (if rdc \<le> 1.0 then ''PASA'' else ''FALLA''),
             ecuaciones_ref = [ecuacion_ref],
             RDC = rdc,
             Mn = mn, Mb = mb,
             estado_limite = el,
             clasificacion = patin_flexion clas,
             Muy_aplicada = Muy c\<rparr>)))))"

datatype Eje = FUERTE | DEBIL

datatype ResultadoFlexion = FlexionFuerte ResFlexionFuerte | FlexionDebil ResFlexionDebil

text \<open>The \<open>['Mb']\<close> lookup on whichever dictionary the flexure check returned.\<close>

definition Mb_de :: "ResultadoFlexion \<Rightarrow> real" where
  "Mb_de r = (case r of FlexionFuerte f \<Rightarrow> Mb f | FlexionDebil f \<Rightarrow> Mb f)"

definition verificar_flexion ::
    "PropiedadesPerfilW \<Rightarrow> CondicionesCarga \<Rightarrow> Eje \<Rightarrow> py_error + ResultadoFlexion" where
  "verificar_flexion p c eje =
     (if eje = FUERTE
      then py_bind (verificar_flexion_eje_fuerte p c) (\<lambda>r. Inr (FlexionFuerte r))
      else py_bind (verificar_flexion_eje_debil p c) (\<lambda>r. Inr (FlexionDebil r)))"

subsection \<open>Chapter H: interaction of axial compression and flexure\<close>

record ResInteraccion = Resultado +
  interaccion :: real
  ecuacion_aplicada :: string
  Pr_Pc :: real
  Mrx_Mcx :: real
  Mry_Mcy :: real
  Pr :: real
  Pc_int :: real
  Mrx :: real
  Mcx :: real
  Mry :: real
  Mcy :: real

text \<open>
  The interaction check returns either the two-key dictionary
  \<open>{'estado': 'ERROR', 'nota': ...}\<close> (the constructor \<open>SinCompresion\<close>, holding the two
  values) or the full dictionary.
\<close>

datatype ResultadoInteraccion = SinCompresion string string | Interaccion ResInteraccion

record Resultados =
  tension :: "ResTension option"
  compresion :: "ResultadoCompresion option"
  flexion_eje_fuerte :: "ResultadoFlexion option"
  flexion_eje_debil :: "ResultadoFlexion option"
  clasificacion_seccion :: Clasificacion
  interaccion_flexo_compresion :: "ResultadoInteraccion option"

text \<open>The note of the error dictionary; its two accented letters are written in UTF-8.\<close>

definition nota_compresion :: string where
  "nota_compresion =
     ''Se requiere verificaci'' @ [CHR 0xC3, CHR 0xB3] @ ''n de compresi'' @ [CHR 0xC3, CHR 0xB3] @ ''n''"

definition verificar_interaccion_flexo_compresion ::
    "CondicionesCarga \<Rightarrow> Resultados \<Rightarrow> py_error + ResultadoInteraccion" where
  "verificar_interaccion_flexo_compresion c resultados_previos =
     (case compresion resultados_previos of
        None \<Rightarrow> Inr (SinCompresion ''ERROR'' nota_compresion)
      | Some rc \<Rightarrow>
         (let pc = Pc_de rc;
              mcx = (case flexion_eje_fuerte resultados_previos of
                       Some f \<Rightarrow> Mb_de f | None \<Rightarrow> 0);
              mcy = (case flexion_eje_debil resultados_previos of
                       Some f \<Rightarrow> Mb_de f | None \<Rightarrow> 0);
              pr = \<bar>Pu c\<bar>;
              mrx = \<bar>Mux c\<bar>;
              mry = \<bar>Muy c\<bar>
          in
          py_bind (py_div pr pc) (\<lambda>q.
          py_bind
            (if q \<ge> 0.2 then
               py_bind (py_div pr pc) (\<lambda>a.
               py_bind (py_div mrx mcx) (\<lambda>b_x.
               py_bind (py_div mry mcy) (\<lambda>b_y.
                 Inr (a + (8.0 / 9.0) * (b_x + b_y), ''H1-1a''))))
             else
               py_bind (py_div pr (2 * pc)) (\<lambda>a.
               py_bind (py_div mrx mcx) (\<lambda>b_x.
               py_bind (py_div mry mcy) (\<lambda>b_y.
                 Inr (a + (b_x + b_y), ''H1-1b'')))))
            (\<lambda>(inter, ec).
             Inr (Interaccion
               \<lparr>estado = (if inter \<le> 1.0 then ''PASA'' else ''FALLA''),
                ecuaciones_ref = [ec],
                interaccion = inter,
                ecuacion_aplicada = ec,
                Pr_Pc = (if pc > 0 then pr / pc else 0),
                Mrx_Mcx = (if mcx > 0 then mrx / mcx else 0),
                Mry_Mcy = (if mcy > 0 then mry / mcy else 0),
                Pr = pr, Pc_int = pc, Mrx = mrx, Mcx = mcx, Mry = mry, Mcy = mcy\<rparr>)))))"

subsection \<open>The orchestrator\<close>

text \<open>\<open>x if b else None\<close>, where evaluating \<open>x\<close> may raise.\<close>

definition py_si :: "bool \<Rightarrow> py_error + 'a \<Rightarrow> py_error + 'a option" where
  "py_si b m = (if b then py_bind m (\<lambda>v. Inr (Some v)) else Inr None)"

definition validar_todo :: "PropiedadesPerfilW \<Rightarrow> CondicionesCarga \<Rightarrow> py_error + Resultados" where
  "validar_todo p c =
     py_bind (py_si (Pu c > 0) (verificar_tension p c)) (\<lambda>t.
     py_bind (py_si (Pu c < 0) (verificar_compresion p c)) (\<lambda>co.
     py_bind (py_si (\<bar>Mux c\<bar> > 0) (verificar_flexion p c FUERTE)) (\<lambda>ff.
     py_bind (py_si (\<bar>Muy c\<bar> > 0) (verificar_flexion p c DEBIL)) (\<lambda>fd.
     py_bind (clasificar_seccion p) (\<lambda>clas.
     let resultados = \<lparr>tension = t, compresion = co,
                        flexion_eje_fuerte = ff, flexion_eje_debil = fd,
                        clasificacion_seccion = clas,
                        interaccion_flexo_compresion = None\<rparr>
     in if Pu c < 0 \<and> (\<bar>Mux c\<bar> > 0 \<or> \<bar>Muy c\<bar> > 0) then
          py_bind (verificar_interaccion_flexo_compresion c resultados) (\<lambda>i.
            Inr (resultados\<lparr>interaccion_flexo_compresion := Some i\<rparr>))
        else Inr resultados)))))"

subsection \<open>Example inputs\<close>

text \<open>
  A compact built-up I section in cm and kgf, with \<open>E / Fy = 625\<close>. Its torsional data
  are chosen so that every square root of the strong-axis check is rational:
  \<open>rts = 7\<close>, \<open>Lp = 220\<close> and \<open>Lr = 731.25\<close>.
\<close>

definition perfil_ejemplo :: PropiedadesPerfilW where
  "perfil_ejemplo =
     \<lparr>d = 42, bf = 20, tf = 2, tw = 1, A = 118,
      Ix = 20000, Sx = 900, Zx = 1000, rx = 13,
      Iy = 2401, Sy = 240, Zy = 370, ry = 5, ho = 40,
      J = 22.40128, Cw = 810000,
      Fy = 3200, Fu = 4500, E = 2000000\<rparr>"

definition cargas_tension :: CondicionesCarga where
  "cargas_tension =
     \<lparr>Pu = 100000, Mux = 0, Muy = 0, L = 300, Lx = 300, Ly = 300, Lt = 300, Cb = 1\<rparr>"

text \<open>Strong-axis loads on the example section: at \<open>Lt = Lr\<close> and inside the inelastic
  range.\<close>

definition cargas_en_Lr :: CondicionesCarga where
  "cargas_en_Lr =
     \<lparr>Pu = 0, Mux = 1000000, Muy = 0, L = 731.25, Lx = 731.25, Ly = 731.25, Lt = 731.25, Cb = 2\<rparr>"

definition cargas_inelastico :: CondicionesCarga where
  "cargas_inelastico =
     \<lparr>Pu = 0, Mux = 1000000, Muy = 0, L = 400, Lx = 400, Ly = 400, Lt = 400, Cb = 2\<rparr>"

text \<open>
  The example section with \<open>ry = 6.25\<close> in place of \<open>5\<close>. Its \<open>Lp\<close> is
  \<open>1.76 * 6.25 * 25 = 275\<close>, and the double-precision products \<open>1.76 * 6.25 = 11.0\<close> and
  \<open>11.0 * 25.0 = 275.0\<close> give the same value, so the loads below sit at \<open>Lt = Lp\<close>
  in the program too. Its \<open>rts\<close> and \<open>Lr\<close> are those of the example section.
\<close>

definition perfil_en_Lp :: PropiedadesPerfilW where
  "perfil_en_Lp =
     \<lparr>d = 42, bf = 20, tf = 2, tw = 1, A = 118,
      Ix = 20000, Sx = 900, Zx = 1000, rx = 13,
      Iy = 2401, Sy = 240, Zy = 370, ry = 6.25, ho = 40,
      J = 22.40128, Cw = 810000,
      Fy = 3200, Fu = 4500, E = 2000000\<rparr>"

definition cargas_en_Lp :: CondicionesCarga where
  "cargas_en_Lp =
     \<lparr>Pu = 0, Mux = 1000000, Muy = 0, L = 275, Lx = 275, Ly = 275, Lt = 275, Cb = 2\<rparr>"

subsection \<open>Result dictionaries in closed form\<close>

text \<open>
  The dictionary that lines 457 to 478 of the strong-axis check build from the nominal
  moment \<open>mn\<close>, the limit state \<open>el\<close> and the equation \<open>ref\<close> of the branch taken; it
  is used to state what the check returns.
\<close>

definition res_fuerte ::
    "Clasificacion \<Rightarrow> CondicionesCarga \<Rightarrow> real \<Rightarrow> real \<Rightarrow> real \<Rightarrow> real \<Rightarrow> string \<Rightarrow> string
       \<Rightarrow> ResFlexionFuerte" where
  "res_fuerte clas c lp lr rt mn el ref =
     \<lparr>estado = (if \<bar>Mux c\<bar> / (0.9 * mn) \<le> 1 then ''PASA'' else ''FALLA''),
      ecuaciones_ref = [ref, ''F2-5'', ''F2-6''],
      RDC = \<bar>Mux c\<bar> / (0.9 * mn),
      Mn = mn, Mb = 0.9 * mn,
      estado_limite = el,
      clasificacion = patin_flexion clas,
      Lp = lp, Lr = lr, Lt_res = Lt c, rts = rt,
      Mux_aplicada = Mux c\<rparr>"

text \<open>
  Previous results for the interaction check: a dictionary with a compression result
  (\<open>Pc = 212400\<close>) and both flexure results (\<open>Mb = 2880000\<close> and \<open>Mb = 1065600\<close>),
  as \<open>validar_todo\<close> passes it on, for the loads \<open>c\<close>.
\<close>

definition previos_ejemplo :: "CondicionesCarga \<Rightarrow> Resultados" where
  "previos_ejemplo c =
     \<lparr>tension = None,
      compresion = Some (NoEsbeltos
        \<lparr>estado = (if \<bar>Pu c\<bar> / 212400 \<le> 1 then ''PASA'' else ''FALLA''),
         ecuaciones_ref = [''E3-1'', ''E3-2'', ''E3-4''],
         RDC = \<bar>Pu c\<bar> / 212400,
         Pu_aplicada = \<bar>Pu c\<bar>,
         KL_r_x = 25, KL_r_y = 60, KL_r_gobernante = 60,
         Fe = 5483, lambda_c = 0.5836, Fcr = 2000, Pn = 236000, Pc = 212400,
         modo_pandeo = ''inelastico''\<rparr>),
      flexion_eje_fuerte = Some (FlexionFuerte
        \<lparr>estado = (if \<bar>Mux c\<bar> / 2880000 \<le> 1 then ''PASA'' else ''FALLA''),
         ecuaciones_ref = [''F2-1'', ''F2-5'', ''F2-6''],
         RDC = \<bar>Mux c\<bar> / 2880000,
         Mn = 3200000, Mb = 2880000,
         estado_limite = ''fluencia'',
         clasificacion = ''compacta'',
         Lp = 220, Lr = 731.25, Lt_res = Lt c, rts = 7,
         Mux_aplicada = Mux c\<rparr>),
      flexion_eje_debil = Some (FlexionDebil
        \<lparr>estado = (if \<bar>Muy c\<bar> / 1065600 \<le> 1 then ''PASA'' else ''FALLA''),
         ecuaciones_ref = [''F6-1''],
         RDC = \<bar>Muy c\<bar> / 1065600,
         Mn = 1184000, Mb = 1065600,
         estado_limite = ''fluencia'',
         clasificacion = ''compacta'',
         Muy_aplicada = Muy c\<rparr>),
      clasificacion_seccion =
        \<lparr>patin_compresion = ''compacta'', patin_flexion = ''compacta'',
         alma_flexion = ''compacta'',
         relaciones = \<lparr>lambda_f = 5, lambda_w = 38,
                        lambda_p_f_comp = 14, lambda_r_f_comp = 37.25,
                        lambda_p_f_flex = 9.5, lambda_r_f_flex = 25,
                        lambda_p_w_flex = 94, lambda_r_w_flex = 142.5\<rparr>\<rparr>,
      interaccion_flexo_compresion = None\<rparr>"

text \<open>Combined loads with \<open>Pr / Pc = 0.5\<close> and with \<open>Pr / Pc = 0.1\<close>.\<close>

definition cargas_interaccion_a :: CondicionesCarga where
  "cargas_interaccion_a =
     \<lparr>Pu = - 106200, Mux = 576000, Muy = 106560, L = 300, Lx = 300, Ly = 300, Lt = 200, Cb = 1\<rparr>"

definition cargas_interaccion_b :: CondicionesCarga where
  "cargas_interaccion_b =
     \<lparr>Pu = - 21240, Mux = 576000, Muy = 106560, L = 300, Lx = 300, Ly = 300, Lt = 200, Cb = 1\<rparr>"

text \<open>
  A built-up I section with thin, wide flanges: \<open>bf / (2 * tf) = 50\<close>, above both
  \<open>1.49 * sqrt (E / Fy) = 37.25\<close> and \<open>sqrt (E / Fy) = 25\<close>, so the flange is slender in
  compression and in flexure; the web is compact.
\<close>

definition perfil_esbelto :: PropiedadesPerfilW where
  "perfil_esbelto =
     \<lparr>d = 50, bf = 50, tf = 0.5, tw = 1, A = 100,
      Ix = 40000, Sx = 1600, Zx = 1800, rx = 20,
      Iy = 10400, Sy = 400, Zy = 630, ry = 10, ho = 49.5,
      J = 20.5, Cw = 6380000,
      Fy = 3200, Fu = 4500, E = 2000000\<rparr>"

definition cargas_debil :: CondicionesCarga where
  "cargas_debil =
     \<lparr>Pu = 0, Mux = 0, Muy = 10000, L = 300, Lx = 300, Ly = 300, Lt = 300, Cb = 1\<rparr>"

text \<open>Axial compression with a strong-axis moment only.\<close>

definition cargas_un_momento :: CondicionesCarga where
  "cargas_un_momento =
     \<lparr>Pu = - 106200, Mux = 576000, Muy = 0, L = 300, Lx = 300, Ly = 300, Lt = 200, Cb = 1\<rparr>"

text \<open>A long column: \<open>Ly / ry = 160\<close> on the example section.\<close>

definition cargas_columna :: CondicionesCarga where
  "cargas_columna =
     \<lparr>Pu = - 100000, Mux = 0, Muy = 0, L = 800, Lx = 800, Ly = 800, Lt = 800, Cb = 1\<rparr>"

text \<open>A short column for the slender example section: \<open>Ly / ry = 30\<close>.\<close>

definition cargas_columna_corta :: CondicionesCarga where
  "cargas_columna_corta =
     \<lparr>Pu = - 100000, Mux = 0, Muy = 0, L = 300, Lx = 300, Ly = 300, Lt = 300, Cb = 1\<rparr>"

section \<open>Properties\<close>

subsection \<open>The exception monad\<close>

lemma py_bind_Inr [simp]: "py_bind (Inr v) f = f v"
  by (simp add: py_bind_def)

lemma py_bind_Inl [simp]: "py_bind (Inl e) f = Inl e"
  by (simp add: py_bind_def)

lemma py_bind_eq_Inr: "py_bind m f = Inr r \<longleftrightarrow> (\<exists>v. m = Inr v \<and> f v = Inr r)"
  by (cases m) simp_all

lemma py_div_eq_Inr: "py_div x y = Inr r \<longleftrightarrow> y \<noteq> 0 \<and> r = x / y"
  by (auto simp: py_div_def)

lemma py_div_ok: "y \<noteq> 0 \<Longrightarrow> py_div x y = Inr (x / y)"
  by (simp add: py_div_def)

lemma py_div_zero [simp]: "py_div x 0 = Inl ZeroDivisionError"
  by (simp add: py_div_def)

lemma py_sqrt_eq_Inr: "py_sqrt x = Inr r \<longleftrightarrow> 0 \<le> x \<and> r = sqrt x"
  by (auto simp: py_sqrt_def)

lemma py_sqrt_ok: "0 \<le> x \<Longrightarrow> py_sqrt x = Inr (sqrt x)"
  by (simp add: py_sqrt_def)

subsection \<open>Classification of one element\<close>

text \<open>
  C5. For limits \<open>lambda_p < lambda_r\<close>, a ratio at most \<open>lambda_p\<close> is compact, a ratio
  above \<open>lambda_p\<close> and at most \<open>lambda_r\<close> is noncompact, and a ratio above \<open>lambda_r\<close> is
  slender; the two boundaries belong to the lower band: the ratio \<open>lambda_p\<close> itself is
  compact and the ratio \<open>lambda_r\<close> itself is noncompact.
\<close>

theorem clasificar_elemento_bandas:
  assumes "lambda_p < lambda_r"
  shows "(lam \<le> lambda_p \<longrightarrow> clasificar_elemento lam lambda_p lambda_r = ''compacta'')
       \<and> (lambda_p < lam \<and> lam \<le> lambda_r \<longrightarrow>
            clasificar_elemento lam lambda_p lambda_r = ''no_compacta'')
       \<and> (lam > lambda_r \<longrightarrow> clasificar_elemento lam lambda_p lambda_r = ''esbelta'')
       \<and> clasificar_elemento lambda_p lambda_p lambda_r = ''compacta''
       \<and> clasificar_elemento lambda_r lambda_p lambda_r = ''no_compacta''"
  using assms by (simp add: clasificar_elemento_def)

theorem clasificar_elemento_bandas_witness:
  "(10::real) < 20
   \<and> clasificar_elemento 7 10 20 = ''compacta''
   \<and> clasificar_elemento 15 10 20 = ''no_compacta''
   \<and> clasificar_elemento 25 10 20 = ''esbelta''
   \<and> clasificar_elemento 10 10 20 = ''compacta''
   \<and> clasificar_elemento 20 10 20 = ''no_compacta''"
  using clasificar_elemento_bandas [of 10 20 7]
        clasificar_elemento_bandas [of 10 20 15]
        clasificar_elemento_bandas [of 10 20 25]
  by simp

subsection \<open>Tension\<close>

text \<open>
  C9. Whenever the governing capacity \<open>min (0.9 * Fy * A) (0.75 * Fu * A)\<close> is not zero,
  the tension check returns a result whose governing capacity is that minimum, which is one
  of the two factored values; its demand/capacity ratio is \<open>|Pu|\<close> divided by the governing
  capacity, and its verdict is \<open>'PASA'\<close> if and only if the ratio is at most 1.
  (With a zero governing capacity the division raises.)
\<close>

theorem verificar_tension_gobernante:
  assumes "min (0.9 * Fy p * A p) (0.75 * Fu p * A p) \<noteq> 0"
  shows "\<exists>r. verificar_tension p c = Inr r
           \<and> Pt_gobernante r = min (0.9 * Fy p * A p) (0.75 * Fu p * A p)
           \<and> (Pt_gobernante r = 0.9 * Fy p * A p \<or> Pt_gobernante r = 0.75 * Fu p * A p)
           \<and> RDC r = \<bar>Pu c\<bar> / Pt_gobernante r
           \<and> (estado r = ''PASA'' \<longleftrightarrow> RDC r \<le> 1)"
proof -
  let ?a = "0.9 * Fy p * A p" and ?b = "0.75 * Fu p * A p"
  have e: "0.9 * (Fy p * A p) = ?a" "0.75 * (Fu p * A p) = ?b"
    by simp_all
  have m: "min ?a ?b = ?a \<or> min ?a ?b = ?b"
    by (rule min_def [of ?a ?b, THEN ssubst]) simp
  show ?thesis
    unfolding verificar_tension_def Let_def e
    using assms m by (simp add: py_div_ok)
qed

theorem verificar_tension_gobernante_witness:
  "min (0.9 * Fy perfil_ejemplo * A perfil_ejemplo) (0.75 * Fu perfil_ejemplo * A perfil_ejemplo) \<noteq> 0
   \<and> (\<exists>r. verificar_tension perfil_ejemplo cargas_tension = Inr r
         \<and> Pt_gobernante r = 339840
         \<and> RDC r = 100000 / 339840
         \<and> estado r = ''PASA'')"
proof -
  have h: "min (0.9 * Fy perfil_ejemplo * A perfil_ejemplo)
               (0.75 * Fu perfil_ejemplo * A perfil_ejemplo) = 339840"
    by (simp add: perfil_ejemplo_def)
  have n: "min (0.9 * Fy perfil_ejemplo * A perfil_ejemplo)
               (0.75 * Fu perfil_ejemplo * A perfil_ejemplo) \<noteq> 0"
    unfolding h by simp
  from verificar_tension_gobernante [OF n, of cargas_tension]
  obtain r where r: "verificar_tension perfil_ejemplo cargas_tension = Inr r"
      "Pt_gobernante r = 339840" "RDC r = \<bar>Pu cargas_tension\<bar> / Pt_gobernante r"
      "(estado r = ''PASA'') = (RDC r \<le> 1)"
    unfolding h by blast
  have "RDC r = 100000 / 339840"
    using r(2,3) by (simp add: cargas_tension_def)
  moreover have "estado r = ''PASA''"
    using r(4) calculation by simp
  ultimately show ?thesis
    using n r(1,2) by blast
qed

subsection \<open>Bounds on \<open>pi\<close> and on the column curve\<close>

lemma arctan_le_self_nonneg:
  assumes "0 \<le> (x::real)"
  shows "arctan x \<le> x"
proof -
  have "arctan x - x \<le> arctan 0 - 0"
  proof (rule DERIV_nonpos_imp_nonincreasing [of 0 x "\<lambda>t. arctan t - t"])
    show "0 \<le> x" by fact
  next
    fix t :: real
    have "((\<lambda>t. arctan t - t) has_real_derivative (inverse (1 + t\<^sup>2) - 1)) (at t)"
      by (auto intro!: derivative_eq_intros)
    moreover have "inverse (1 + t\<^sup>2) \<le> 1"
      by (rule inverse_le_1_iff [THEN iffD2]) simp
    ultimately show "\<exists>y. ((\<lambda>t. arctan t - t) has_real_derivative y) (at t) \<and> y \<le> 0"
      by (intro exI [of _ "inverse (1 + t\<^sup>2) - 1"]) simp
  qed
  then show ?thesis by simp
qed

lemma pi_ge_3: "3 \<le> pi"
  using sin_x_le_x [of "pi / 6"] sin_30 by simp

lemma pi_le_3_2: "pi \<le> 3.2"
proof -
  have "arctan (1 / 5) \<le> 1 / 5"
    by (rule arctan_le_self_nonneg) simp
  moreover have "0 \<le> arctan (1 / 239)"
    by simp
  ultimately have "pi / 4 \<le> 4 / 5"
    unfolding machin by linarith
  then show ?thesis by simp
qed

lemma pi2_cotas: "9 \<le> pi\<^sup>2" "pi\<^sup>2 \<le> 10.24"
proof -
  have "3\<^sup>2 \<le> pi\<^sup>2"
    using pi_ge_3 by (intro power_mono) simp_all
  then show "9 \<le> pi\<^sup>2" by simp
  have "pi\<^sup>2 \<le> 3.2\<^sup>2"
    using pi_le_3_2 by (intro power_mono) simp_all
  then show "pi\<^sup>2 \<le> 10.24" by (simp add: power2_eq_square)
qed

lemma ln_inv_c: "1 / 3 \<le> ln (1 / 0.658 :: real)"
proof -
  have "exp (1 / 3 :: real) ^ 3 = exp 1"
    by (simp add: exp_of_nat_mult [symmetric])
  also have "\<dots> \<le> 3" by (rule exp_le)
  also have "\<dots> \<le> (1 / 0.658 :: real) ^ 3" by (simp add: power3_eq_cube)
  finally have c: "exp (1 / 3 :: real) ^ 3 \<le> (1 / 0.658) ^ 3" .
  have "exp (1 / 3 :: real) \<le> 1 / 0.658"
  proof (rule ccontr)
    assume "\<not> exp (1 / 3 :: real) \<le> 1 / 0.658"
    then have "(1 / 0.658 :: real) < exp (1 / 3)" by simp
    then have "(1 / 0.658 :: real) ^ 3 < exp (1 / 3) ^ 3"
      by (intro power_strict_mono) simp_all
    with c show False by linarith
  qed
  then show ?thesis
    by (subst ln_ge_iff) simp_all
qed

lemma inelastico_bajo_elastico:
  assumes "3 \<le> (x::real)"
  shows "x * (0.658 powr x) < 0.877"
proof -
  define y where "y = x - 3"
  have y: "0 \<le> y" "x = 3 + y" using assms by (simp_all add: y_def)
  have "y * (1 / 3) \<le> y * ln (1 / 0.658)"
    using ln_inv_c y(1) by (rule mult_left_mono)
  then have "1 + y / 3 \<le> 1 + y * ln (1 / 0.658)"
    by simp
  also have "\<dots> \<le> exp (y * ln (1 / 0.658))"
    by (rule exp_ge_add_one_self)
  also have "\<dots> = (1 / 0.658) powr y"
    by (simp add: powr_def)
  finally have a: "1 + y / 3 \<le> (1 / 0.658) powr y" .
  define P where "P = (0.658::real) powr y"
  define Q where "Q = (1 / 0.658 :: real) powr y"
  have inv: "Q * P = 1"
    unfolding P_def Q_def by (simp add: powr_mult [symmetric])
  have pos: "0 \<le> P"
    unfolding P_def by simp
  have "(1 + y / 3) * P \<le> Q * P"
    using a pos unfolding Q_def by (rule mult_right_mono)
  then have b: "(1 + y / 3) * (0.658 powr y) \<le> 1"
    unfolding inv unfolding P_def .
  have "x * (0.658 powr x) = 3 * 0.658 ^ 3 * ((1 + y / 3) * (0.658 powr y))"
    unfolding y(2) by (simp add: powr_add algebra_simps)
  also have "\<dots> \<le> 3 * 0.658 ^ 3 * 1"
    using b by (intro mult_left_mono) simp_all
  also have "\<dots> < 0.877" by (simp add: power3_eq_cube)
  finally show ?thesis .
qed

subsection \<open>Square roots and the example section\<close>

lemma sqrt_eqI: "0 \<le> y \<Longrightarrow> y\<^sup>2 = x \<Longrightarrow> sqrt x = y"
  by (metis real_sqrt_abs abs_of_nonneg)

lemma raiz_ejemplo: "raiz_E_Fy perfil_ejemplo = Inr 25"
proof -
  have "sqrt 625 = 25" by (rule sqrt_eqI) simp_all
  then show ?thesis
    by (simp add: raiz_E_Fy_def perfil_ejemplo_def py_div_def py_sqrt_def)
qed

lemma rts_ejemplo: "rts_F2_7 perfil_ejemplo = Inr 7"
proof -
  have a: "sqrt 1944810000 = 44100" by (rule sqrt_eqI) simp_all
  have b: "sqrt 49 = 7" by (rule sqrt_eqI) simp_all
  show ?thesis
    by (simp add: rts_F2_7_def perfil_ejemplo_def py_div_def py_sqrt_def a b)
qed

lemma abs_le_sqrt_suma: "0 \<le> b \<Longrightarrow> \<bar>x\<bar> \<le> sqrt (x\<^sup>2 + b)"
proof (rule real_le_rsqrt)
  assume "0 \<le> b"
  then show "\<bar>x\<bar>\<^sup>2 \<le> x\<^sup>2 + b" by simp
qed

lemma Lr_F2_6_valor:
  assumes "Fy p \<noteq> 0" "E p \<noteq> 0" "Sx p * ho p \<noteq> 0"
  shows "Lr_F2_6 p r =
           Inr (1.95 * r * (E p / (0.7 * Fy p)) *
                sqrt (J p / (Sx p * ho p) +
                      sqrt ((J p / (Sx p * ho p))\<^sup>2 + 6.76 * (0.7 * Fy p / E p)\<^sup>2)))"
proof -
  let ?X = "J p / (Sx p * ho p)"
  let ?s1 = "sqrt (?X\<^sup>2 + 6.76 * (0.7 * Fy p / E p)\<^sup>2)"
  have "\<bar>?X\<bar> \<le> ?s1"
    by (rule abs_le_sqrt_suma) simp
  then have "0 \<le> ?X + ?s1" by linarith
  then show ?thesis
    using assms by (simp add: Lr_F2_6_def Let_def py_div_ok py_sqrt_ok)
qed

lemma Lr_ejemplo: "Lr_F2_6 perfil_ejemplo 7 = Inr 731.25"
proof -
  have X: "J perfil_ejemplo / (Sx perfil_ejemplo * ho perfil_ejemplo) = 17501 / 28125000"
    by (simp add: perfil_ejemplo_def)
  have a: "0.7 * Fy perfil_ejemplo / E perfil_ejemplo = 7 / 6250"
    by (simp add: perfil_ejemplo_def)
  have k: "E perfil_ejemplo / (0.7 * Fy perfil_ejemplo) = 6250 / 7"
    by (simp add: perfil_ejemplo_def)
  have s1: "sqrt ((17501 / 28125000)\<^sup>2 + 6.76 * (7 / 6250)\<^sup>2) = 83749 / 28125000"
    by (rule sqrt_eqI) (simp_all add: power2_eq_square)
  have s2: "sqrt (17501 / 28125000 + 83749 / 28125000) = 0.06"
    by (rule sqrt_eqI) (simp_all add: power2_eq_square)
  have "Lr_F2_6 perfil_ejemplo 7 = Inr (1.95 * 7 * (6250 / 7) * 0.06)"
    by (subst Lr_F2_6_valor) (simp_all only: X a k s1 s2, simp_all add: perfil_ejemplo_def)
  then show ?thesis by simp
qed

subsection \<open>Strong-axis flexure: the three regimes\<close>

lemma py_bindE:
  assumes "py_bind m f = Inr r"
  obtains v where "m = Inr v" and "f v = Inr r"
  using assms by (auto simp: py_bind_eq_Inr)

lemma fuerte_regimenes:
  assumes "verificar_flexion_eje_fuerte p c = Inr r"
  shows "\<exists>s. raiz_E_Fy p = Inr s \<and> Lp r = 1.76 * ry p * s
           \<and> rts_F2_7 p = Inr (rts r) \<and> Lr_F2_6 p (rts r) = Inr (Lr r)
           \<and> (if Lt c \<le> Lp r then
                 Mn r = Fy p * Zx p \<and> estado_limite r = ''fluencia''
               else if Lt c < Lr r then
                 Mn_F2_2 p c (Lp r) (Lr r) = Inr (Mn r) \<and> estado_limite r = ''pandeo_LT_inelastico''
               else
                 Mn_F2_3 p c (rts r) = Inr (Mn r) \<and> estado_limite r = ''pandeo_LT_elastico'')
           \<and> Mb r = 0.9 * Mn r \<and> Mb r \<noteq> 0 \<and> RDC r = \<bar>Mux c\<bar> / Mb r
           \<and> (estado r = ''PASA'' \<longleftrightarrow> RDC r \<le> 1)"
  using assms unfolding verificar_flexion_eje_fuerte_def Let_def
  apply (elim py_bindE)
  subgoal for clas s rt lr t
    apply (cases t)
    apply (clarsimp simp: py_bind_eq_Inr py_div_eq_Inr)
    apply (auto simp: py_bind_eq_Inr split: if_splits)
    done
  done

lemma Mn_F2_2_valor:
  "lr \<noteq> lp \<Longrightarrow>
   Mn_F2_2 p c lp lr =
     Inr (Cb c * (Fy p * Zx p - (Fy p * Zx p - 0.7 * Fy p * Sx p) * (Lt c - lp) / (lr - lp)))"
  by (simp add: Mn_F2_2_def Let_def py_div_ok)

lemma clasificar_ejemplo_valor:
  "clasificar_seccion perfil_ejemplo =
     Inr \<lparr>patin_compresion = ''compacta'', patin_flexion = ''compacta'',
          alma_flexion = ''compacta'',
          relaciones = \<lparr>lambda_f = 5, lambda_w = 38,
                         lambda_p_f_comp = 14, lambda_r_f_comp = 37.25,
                         lambda_p_f_flex = 9.5, lambda_r_f_flex = 25,
                         lambda_p_w_flex = 94, lambda_r_w_flex = 142.5\<rparr>\<rparr>"
  by (simp add: clasificar_seccion_def raiz_ejemplo Let_def clasificar_elemento_def py_div_def)
     (simp add: perfil_ejemplo_def)

lemma if_mayor_min: "(if b < a then b else a) = min a (b::real)"
  by (simp add: min_def)

lemma Mn_F2_3_valor:
  assumes "rt \<noteq> 0" "Lt c \<noteq> 0" "Sx p * ho p \<noteq> 0"
    and "0 \<le> 1 + 0.078 * (J p / (Sx p * ho p)) * (Lt c / rt)\<^sup>2"
  shows "Mn_F2_3 p c rt =
           Inr (min (Cb c * pi\<^sup>2 * E p / (Lt c / rt)\<^sup>2 *
                       sqrt (1 + 0.078 * (J p / (Sx p * ho p)) * (Lt c / rt)\<^sup>2) * Sx p)
                    (Fy p * Zx p))"
proof -
  have u: "(Lt c / rt)\<^sup>2 \<noteq> 0"
    using assms(1,2) by simp
  have j: "J p * 1.0 = J p" by simp
  show ?thesis
    unfolding Mn_F2_3_def Let_def j
    by (simp only: py_div_ok [OF assms(1)] py_div_ok [OF u] py_div_ok [OF assms(3)]
          py_sqrt_ok [OF assms(4)] py_bind_Inr if_mayor_min)
qed

lemma Mn_F2_3_en_Lr: "Mn_F2_3 perfil_ejemplo cargas_en_Lr 7 = Inr 3200000"
proof -
  let ?u = "731.25 / 7 :: real"
  let ?x = "22.40128 / (900 * 40) :: real"
  define S where "S = sqrt (1 + 0.078 * ?x * ?u\<^sup>2)"
  define T where "T = 2 * pi\<^sup>2 * 2000000 / ?u\<^sup>2"
  define T0 :: real where "T0 = 2 * 9 * 2000000 / ?u\<^sup>2"
  have pos: "0 \<le> 1 + 0.078 * ?x * ?u\<^sup>2" by simp
  have "(1.2::real)\<^sup>2 \<le> 1 + 0.078 * ?x * ?u\<^sup>2"
    by (simp add: power2_eq_square)
  then have s: "1.2 \<le> S"
    unfolding S_def by (rule real_le_rsqrt)
  have t: "T0 \<le> T"
    unfolding T0_def T_def using pi2_cotas(1) by (simp add: divide_right_mono)
  have t0: "3200000 / 900 < T0 * 1.2" "0 \<le> T0"
    unfolding T0_def by (simp_all add: power2_eq_square)
  have "T0 * 1.2 \<le> T * S"
    using t s t0(2) by (intro mult_mono) simp_all
  with t0(1) have "3200000 / 900 < T * S" by linarith
  moreover have "\<And>a::real. 3200000 / 900 < a \<Longrightarrow> 3200000 \<le> a * 900"
    by simp
  ultimately have cap: "3200000 \<le> T * S * 900" by blast
  have sel: "Cb cargas_en_Lr = 2" "Lt cargas_en_Lr = 731.25" "E perfil_ejemplo = 2000000"
    "J perfil_ejemplo = 22.40128" "Sx perfil_ejemplo = 900" "ho perfil_ejemplo = 40"
    "Fy perfil_ejemplo = 3200" "Zx perfil_ejemplo = 1000"
    by (simp_all add: perfil_ejemplo_def cargas_en_Lr_def)
  have "Mn_F2_3 perfil_ejemplo cargas_en_Lr 7 =
          Inr (min (Cb cargas_en_Lr * pi\<^sup>2 * E perfil_ejemplo / (Lt cargas_en_Lr / 7)\<^sup>2 *
                 sqrt (1 + 0.078 * (J perfil_ejemplo / (Sx perfil_ejemplo * ho perfil_ejemplo)) *
                         (Lt cargas_en_Lr / 7)\<^sup>2) * Sx perfil_ejemplo)
               (Fy perfil_ejemplo * Zx perfil_ejemplo))"
    by (rule Mn_F2_3_valor) (simp_all add: sel)
  then have "Mn_F2_3 perfil_ejemplo cargas_en_Lr 7 = Inr (min (T * S * 900) (3200 * 1000))"
    unfolding sel T_def S_def .
  then show ?thesis
    using cap by (simp add: min_def)
qed

lemma fuerte_fluencia:
  assumes "clasificar_seccion p = Inr clas" "raiz_E_Fy p = Inr s" "rts_F2_7 p = Inr rt"
    and "Lr_F2_6 p rt = Inr lr"
    and "Lt c \<le> 1.76 * ry p * s" "Fy p * Zx p \<noteq> 0"
  shows "verificar_flexion_eje_fuerte p c =
           Inr (res_fuerte clas c (1.76 * ry p * s) lr rt (Fy p * Zx p) ''fluencia'' ''F2-1'')"
  unfolding verificar_flexion_eje_fuerte_def Let_def res_fuerte_def
  using assms by (simp add: py_div_ok)

lemma fuerte_inelastico:
  assumes "clasificar_seccion p = Inr clas" "raiz_E_Fy p = Inr s" "rts_F2_7 p = Inr rt"
    and "Lr_F2_6 p rt = Inr lr"
    and "1.76 * ry p * s < Lt c" "Lt c < lr"
    and "Mn_F2_2 p c (1.76 * ry p * s) lr = Inr mn" "mn \<noteq> 0"
  shows "verificar_flexion_eje_fuerte p c =
           Inr (res_fuerte clas c (1.76 * ry p * s) lr rt mn ''pandeo_LT_inelastico'' ''F2-2'')"
  unfolding verificar_flexion_eje_fuerte_def Let_def res_fuerte_def
  using assms by (simp add: py_div_ok)

lemma fuerte_elastico:
  assumes "clasificar_seccion p = Inr clas" "raiz_E_Fy p = Inr s" "rts_F2_7 p = Inr rt"
    and "Lr_F2_6 p rt = Inr lr"
    and "1.76 * ry p * s < Lt c" "lr \<le> Lt c"
    and "Mn_F2_3 p c rt = Inr mn" "mn \<noteq> 0"
  shows "verificar_flexion_eje_fuerte p c =
           Inr (res_fuerte clas c (1.76 * ry p * s) lr rt mn ''pandeo_LT_elastico'' ''F2-3'')"
  unfolding verificar_flexion_eje_fuerte_def Let_def res_fuerte_def
  using assms by (simp add: py_div_ok)

lemma fuerte_en_Lr:
  "verificar_flexion_eje_fuerte perfil_ejemplo cargas_en_Lr =
     Inr \<lparr>estado = ''PASA'',
          ecuaciones_ref = [''F2-3'', ''F2-5'', ''F2-6''],
          RDC = 1000000 / 2880000,
          Mn = 3200000, Mb = 2880000,
          estado_limite = ''pandeo_LT_elastico'',
          clasificacion = ''compacta'',
          Lp = 220, Lr = 731.25, Lt_res = 731.25, rts = 7,
          Mux_aplicada = 1000000\<rparr>"
  by (subst fuerte_elastico [OF clasificar_ejemplo_valor raiz_ejemplo rts_ejemplo Lr_ejemplo _ _ Mn_F2_3_en_Lr])
     (simp_all add: res_fuerte_def perfil_ejemplo_def cargas_en_Lr_def)

lemma Mn_F2_3_tope: "Mn_F2_3 p c rt = Inr m \<Longrightarrow> m \<le> Fy p * Zx p"
  unfolding Mn_F2_3_def Let_def
  by (elim py_bindE) (auto split: if_splits)

lemma fuerte_inelastico_ejemplo:
  "verificar_flexion_eje_fuerte perfil_ejemplo cargas_inelastico =
     Inr \<lparr>estado = ''PASA'',
          ecuaciones_ref = [''F2-2'', ''F2-5'', ''F2-6''],
          RDC = 1000000 / (0.9 * (2 * (3200000 - 1184000 * 180 / 511.25))),
          Mn = 2 * (3200000 - 1184000 * 180 / 511.25),
          Mb = 0.9 * (2 * (3200000 - 1184000 * 180 / 511.25)),
          estado_limite = ''pandeo_LT_inelastico'',
          clasificacion = ''compacta'',
          Lp = 220, Lr = 731.25, Lt_res = 400, rts = 7,
          Mux_aplicada = 1000000\<rparr>"
proof -
  have m: "Mn_F2_2 perfil_ejemplo cargas_inelastico (1.76 * ry perfil_ejemplo * 25) 731.25
             = Inr (2 * (3200000 - 1184000 * 180 / 511.25))"
    by (subst Mn_F2_2_valor) (simp_all add: perfil_ejemplo_def cargas_inelastico_def)
  show ?thesis
    by (subst fuerte_inelastico [OF clasificar_ejemplo_valor raiz_ejemplo rts_ejemplo Lr_ejemplo _ _ m])
       (simp_all add: res_fuerte_def perfil_ejemplo_def cargas_inelastico_def)
qed

text \<open>
  The classification, \<open>sqrt (E / Fy)\<close>, \<open>rts\<close> and \<open>Lr\<close> do not read \<open>ry\<close>, so the
  section with \<open>ry = 6.25\<close> has the values of the example section.
\<close>

lemma perfil_en_Lp_ry: "perfil_en_Lp = perfil_ejemplo\<lparr>ry := 6.25\<rparr>"
  by (simp add: perfil_en_Lp_def perfil_ejemplo_def)

lemma raiz_E_Fy_ry: "raiz_E_Fy (p\<lparr>ry := x\<rparr>) = raiz_E_Fy p"
  by (simp add: raiz_E_Fy_def)

lemma clasificar_seccion_ry: "clasificar_seccion (p\<lparr>ry := x\<rparr>) = clasificar_seccion p"
  by (simp add: clasificar_seccion_def raiz_E_Fy_ry)

lemma rts_F2_7_ry: "rts_F2_7 (p\<lparr>ry := x\<rparr>) = rts_F2_7 p"
  by (simp add: rts_F2_7_def)

lemma Lr_F2_6_ry: "Lr_F2_6 (p\<lparr>ry := x\<rparr>) r = Lr_F2_6 p r"
  by (simp add: Lr_F2_6_def)

lemma fuerte_en_Lp:
  "verificar_flexion_eje_fuerte perfil_en_Lp cargas_en_Lp =
     Inr \<lparr>estado = ''PASA'',
          ecuaciones_ref = [''F2-1'', ''F2-5'', ''F2-6''],
          RDC = 1000000 / 2880000,
          Mn = 3200000, Mb = 2880000,
          estado_limite = ''fluencia'',
          clasificacion = ''compacta'',
          Lp = 275, Lr = 731.25, Lt_res = 275, rts = 7,
          Mux_aplicada = 1000000\<rparr>"
proof -
  have c: "clasificar_seccion perfil_en_Lp =
             Inr \<lparr>patin_compresion = ''compacta'', patin_flexion = ''compacta'',
                  alma_flexion = ''compacta'',
                  relaciones = \<lparr>lambda_f = 5, lambda_w = 38,
                                 lambda_p_f_comp = 14, lambda_r_f_comp = 37.25,
                                 lambda_p_f_flex = 9.5, lambda_r_f_flex = 25,
                                 lambda_p_w_flex = 94, lambda_r_w_flex = 142.5\<rparr>\<rparr>"
    unfolding perfil_en_Lp_ry clasificar_seccion_ry by (rule clasificar_ejemplo_valor)
  have s: "raiz_E_Fy perfil_en_Lp = Inr 25"
    unfolding perfil_en_Lp_ry raiz_E_Fy_ry by (rule raiz_ejemplo)
  have t: "rts_F2_7 perfil_en_Lp = Inr 7"
    unfolding perfil_en_Lp_ry rts_F2_7_ry by (rule rts_ejemplo)
  have l: "Lr_F2_6 perfil_en_Lp 7 = Inr 731.25"
    unfolding perfil_en_Lp_ry Lr_F2_6_ry by (rule Lr_ejemplo)
  show ?thesis
    by (subst fuerte_fluencia [OF c s t l])
       (simp_all add: res_fuerte_def perfil_en_Lp_def cargas_en_Lp_def)
qed

text \<open>
  C10. When the strong-axis check returns with \<open>Lp < Lt < Lr\<close>, it reports the inelastic
  lateral-torsional limit state and its nominal moment is exactly
  \<open>Cb * (Mp - (Mp - 0.7 * Fy * Sx) * (Lt - Lp) / (Lr - Lp))\<close> with \<open>Mp = Fy * Zx\<close>,
  without a cap. When it returns with \<open>Lp < Lt\<close> and \<open>Lr \<le> Lt\<close>, it reports the elastic
  limit state and the nominal moment is at most \<open>Fy * Zx\<close>. There is an input with
  \<open>Cb > 1\<close> in the inelastic range whose nominal moment is strictly above \<open>Fy * Zx\<close>.
\<close>

theorem inelastico_sin_tope:
  "(verificar_flexion_eje_fuerte p c = Inr r \<and> Lp r < Lt c \<and> Lt c < Lr r \<longrightarrow>
      estado_limite r = ''pandeo_LT_inelastico'' \<and>
      Mn r = Cb c * (Fy p * Zx p
                      - (Fy p * Zx p - 0.7 * Fy p * Sx p) * (Lt c - Lp r) / (Lr r - Lp r)))
   \<and> (verificar_flexion_eje_fuerte p c = Inr r \<and> Lp r < Lt c \<and> Lr r \<le> Lt c \<longrightarrow>
      estado_limite r = ''pandeo_LT_elastico'' \<and> Mn r \<le> Fy p * Zx p)
   \<and> (\<exists>p' c' r'. verificar_flexion_eje_fuerte p' c' = Inr r' \<and> 1 < Cb c'
          \<and> Lp r' < Lt c' \<and> Lt c' < Lr r' \<and> Fy p' * Zx p' < Mn r')"
proof (intro conjI impI)
  assume a: "verificar_flexion_eje_fuerte p c = Inr r \<and> Lp r < Lt c \<and> Lt c < Lr r"
  then have "Mn_F2_2 p c (Lp r) (Lr r) = Inr (Mn r) \<and> estado_limite r = ''pandeo_LT_inelastico''"
    using fuerte_regimenes [of p c r] by auto
  moreover have "Lr r \<noteq> Lp r" using a by auto
  ultimately show "estado_limite r = ''pandeo_LT_inelastico''"
    and "Mn r = Cb c * (Fy p * Zx p
                      - (Fy p * Zx p - 0.7 * Fy p * Sx p) * (Lt c - Lp r) / (Lr r - Lp r))"
    by (simp_all add: Mn_F2_2_valor)
next
  assume a: "verificar_flexion_eje_fuerte p c = Inr r \<and> Lp r < Lt c \<and> Lr r \<le> Lt c"
  then have "Mn_F2_3 p c (rts r) = Inr (Mn r) \<and> estado_limite r = ''pandeo_LT_elastico''"
    using fuerte_regimenes [of p c r] by auto
  then show "estado_limite r = ''pandeo_LT_elastico''" and "Mn r \<le> Fy p * Zx p"
    by (auto dest: Mn_F2_3_tope)
next
  show "\<exists>p' c' r'. verificar_flexion_eje_fuerte p' c' = Inr r' \<and> 1 < Cb c'
          \<and> Lp r' < Lt c' \<and> Lt c' < Lr r' \<and> Fy p' * Zx p' < Mn r'"
    by (intro exI [of _ perfil_ejemplo] exI [of _ cargas_inelastico] exI conjI,
        rule fuerte_inelastico_ejemplo)
       (simp_all add: perfil_ejemplo_def cargas_inelastico_def)
qed

theorem inelastico_sin_tope_witness:
  "(\<exists>r. verificar_flexion_eje_fuerte perfil_ejemplo cargas_inelastico = Inr r
        \<and> Lp r < Lt cargas_inelastico \<and> Lt cargas_inelastico < Lr r
        \<and> estado_limite r = ''pandeo_LT_inelastico''
        \<and> Mn r = 2 * (3200000 - 1184000 * 180 / 511.25)
        \<and> Fy perfil_ejemplo * Zx perfil_ejemplo < Mn r)
   \<and> (\<exists>r. verificar_flexion_eje_fuerte perfil_ejemplo cargas_en_Lr = Inr r
        \<and> Lp r < Lt cargas_en_Lr \<and> Lr r \<le> Lt cargas_en_Lr
        \<and> estado_limite r = ''pandeo_LT_elastico''
        \<and> Mn r \<le> Fy perfil_ejemplo * Zx perfil_ejemplo)"
proof (intro conjI)
  let ?r = "\<lparr>estado = ''PASA'',
          ecuaciones_ref = [''F2-2'', ''F2-5'', ''F2-6''],
          RDC = 1000000 / (0.9 * (2 * (3200000 - 1184000 * 180 / 511.25))),
          Mn = 2 * (3200000 - 1184000 * 180 / 511.25),
          Mb = 0.9 * (2 * (3200000 - 1184000 * 180 / 511.25)),
          estado_limite = ''pandeo_LT_inelastico'',
          clasificacion = ''compacta'',
          Lp = 220, Lr = 731.25, Lt_res = 400, rts = 7,
          Mux_aplicada = 1000000\<rparr> :: ResFlexionFuerte"
  have h: "verificar_flexion_eje_fuerte perfil_ejemplo cargas_inelastico = Inr ?r
           \<and> Lp ?r < Lt cargas_inelastico \<and> Lt cargas_inelastico < Lr ?r"
    by (simp add: fuerte_inelastico_ejemplo) (simp add: cargas_inelastico_def)
  from inelastico_sin_tope [of perfil_ejemplo cargas_inelastico ?r] h
  have "estado_limite ?r = ''pandeo_LT_inelastico''" by blast
  with h show "\<exists>r. verificar_flexion_eje_fuerte perfil_ejemplo cargas_inelastico = Inr r
        \<and> Lp r < Lt cargas_inelastico \<and> Lt cargas_inelastico < Lr r
        \<and> estado_limite r = ''pandeo_LT_inelastico''
        \<and> Mn r = 2 * (3200000 - 1184000 * 180 / 511.25)
        \<and> Fy perfil_ejemplo * Zx perfil_ejemplo < Mn r"
    by (intro exI [of _ ?r]) (simp add: perfil_ejemplo_def)
next
  let ?r = "\<lparr>estado = ''PASA'',
          ecuaciones_ref = [''F2-3'', ''F2-5'', ''F2-6''],
          RDC = 1000000 / 2880000,
          Mn = 3200000, Mb = 2880000,
          estado_limite = ''pandeo_LT_elastico'',
          clasificacion = ''compacta'',
          Lp = 220, Lr = 731.25, Lt_res = 731.25, rts = 7,
          Mux_aplicada = 1000000\<rparr> :: ResFlexionFuerte"
  have h: "verificar_flexion_eje_fuerte perfil_ejemplo cargas_en_Lr = Inr ?r
           \<and> Lp ?r < Lt cargas_en_Lr \<and> Lr ?r \<le> Lt cargas_en_Lr"
    by (simp add: fuerte_en_Lr) (simp add: cargas_en_Lr_def)
  from inelastico_sin_tope [of perfil_ejemplo cargas_en_Lr ?r] h
  have "estado_limite ?r = ''pandeo_LT_elastico'' \<and> Mn ?r \<le> Fy perfil_ejemplo * Zx perfil_ejemplo"
    by blast
  with h show "\<exists>r. verificar_flexion_eje_fuerte perfil_ejemplo cargas_en_Lr = Inr r
        \<and> Lp r < Lt cargas_en_Lr \<and> Lr r \<le> Lt cargas_en_Lr
        \<and> estado_limite r = ''pandeo_LT_elastico''
        \<and> Mn r \<le> Fy perfil_ejemplo * Zx perfil_ejemplo"
    by (intro exI [of _ ?r]) simp
qed

text \<open>
  At \<open>Lt = Lp\<close> the interpolation formula of the inelastic branch loses its second
  term and gives \<open>Cb * (Fy * Zx)\<close>: the plastic moment scaled by \<open>Cb\<close>.
\<close>

lemma Mn_F2_2_en_Lp:
  assumes "lr \<noteq> lp" "Lt c = lp"
  shows "Mn_F2_2 p c lp lr = Inr (Cb c * (Fy p * Zx p))"
  using assms by (simp add: Mn_F2_2_valor)

text \<open>
  With the cap \<open>Mn \<le> Fy * Zx\<close> that equation F2-2 carries and that the elastic branch of
  the source applies, the formula at \<open>Lt = Lp\<close> would give the plastic moment for every
  \<open>Cb \<ge> 1\<close>, which is what the yielding branch returns there.
\<close>

lemma continuidad_con_tope:
  assumes "lr \<noteq> lp" "Lt c = lp" "1 \<le> Cb c" "0 \<le> Fy p * Zx p"
  shows "\<exists>m. Mn_F2_2 p c lp lr = Inr m \<and> min m (Fy p * Zx p) = Fy p * Zx p"
proof -
  have "1 * (Fy p * Zx p) \<le> Cb c * (Fy p * Zx p)"
    using assms(3,4) by (rule mult_right_mono)
  then have "min (Cb c * (Fy p * Zx p)) (Fy p * Zx p) = Fy p * Zx p"
    by (simp add: min_def)
  then show ?thesis
    using Mn_F2_2_en_Lp [OF assms(1,2)] by simp
qed

text \<open>
  C7 fails on the code. The section has \<open>sqrt (E / Fy) = 25\<close> and \<open>ry = 6.25\<close>, so
  \<open>Lp = 1.76 * 6.25 * 25 = 275\<close>, and \<open>Lr = 731.25\<close>. With \<open>Lt = 275 = Lp\<close> and
  \<open>Cb = 2\<close> the check takes the yielding branch and returns \<open>Mn = Fy * Zx = 3200000\<close>;
  the formula of the adjacent inelastic branch, evaluated at the same \<open>Lt\<close>, gives
  \<open>6400000\<close>, twice the plastic moment, because that branch has no cap.
\<close>

theorem continuidad_en_Lp_falla:
  "raiz_E_Fy perfil_en_Lp = Inr 25
   \<and> 1.76 * ry perfil_en_Lp * 25 = Lt cargas_en_Lp
   \<and> Cb cargas_en_Lp = 2
   \<and> verificar_flexion_eje_fuerte perfil_en_Lp cargas_en_Lp =
     Inr \<lparr>estado = ''PASA'',
          ecuaciones_ref = [''F2-1'', ''F2-5'', ''F2-6''],
          RDC = 1000000 / 2880000,
          Mn = 3200000, Mb = 2880000,
          estado_limite = ''fluencia'',
          clasificacion = ''compacta'',
          Lp = 275, Lr = 731.25, Lt_res = 275, rts = 7,
          Mux_aplicada = 1000000\<rparr>
   \<and> Mn_F2_2 perfil_en_Lp cargas_en_Lp 275 731.25 = Inr 6400000
   \<and> Fy perfil_en_Lp * Zx perfil_en_Lp = 3200000"
proof -
  have "raiz_E_Fy perfil_en_Lp = Inr 25"
    unfolding perfil_en_Lp_ry raiz_E_Fy_ry by (rule raiz_ejemplo)
  moreover have "Mn_F2_2 perfil_en_Lp cargas_en_Lp 275 731.25 = Inr 6400000"
    by (subst Mn_F2_2_en_Lp) (simp_all add: perfil_en_Lp_def cargas_en_Lp_def)
  moreover have "1.76 * ry perfil_en_Lp * 25 = Lt cargas_en_Lp" "Cb cargas_en_Lp = 2"
      "Fy perfil_en_Lp * Zx perfil_en_Lp = 3200000"
    by (simp_all add: perfil_en_Lp_def cargas_en_Lp_def)
  ultimately show ?thesis
    using fuerte_en_Lp by simp
qed

text \<open>
  C1 fails on the code at \<open>Lt = Lr\<close>. The branch condition of the inelastic regime is
  \<open>Lt < Lr and Lt <= Lr\<close>, so \<open>Lt = Lr\<close> falls through to the elastic branch. On the
  example section \<open>Lr = 731.25\<close>; with \<open>Lt = 731.25\<close> and \<open>Cb = 2\<close> the check reports
  the elastic limit state (equation F2-3) and the capped moment \<open>Fy * Zx = 3200000\<close>,
  where the interpolation formula would give \<open>4032000\<close>.
\<close>

theorem flexion_fuerte_en_Lr:
  "Lr_F2_6 perfil_ejemplo 7 = Inr (Lt cargas_en_Lr)
   \<and> verificar_flexion_eje_fuerte perfil_ejemplo cargas_en_Lr =
     Inr \<lparr>estado = ''PASA'',
          ecuaciones_ref = [''F2-3'', ''F2-5'', ''F2-6''],
          RDC = 1000000 / 2880000,
          Mn = 3200000, Mb = 2880000,
          estado_limite = ''pandeo_LT_elastico'',
          clasificacion = ''compacta'',
          Lp = 220, Lr = 731.25, Lt_res = 731.25, rts = 7,
          Mux_aplicada = 1000000\<rparr>
   \<and> Mn_F2_2 perfil_ejemplo cargas_en_Lr 220 731.25 = Inr 4032000"
  by (simp add: fuerte_en_Lr Lr_ejemplo Mn_F2_2_valor) (simp add: cargas_en_Lr_def perfil_ejemplo_def)

subsection \<open>Interaction of compression and flexure\<close>

text \<open>
  C3. With a compression result whose \<open>Pc\<close> is not zero and both flexure results present
  with nonzero \<open>Mb\<close>, the interaction check returns a result; it applies H1-1a exactly
  when \<open>Pr / Pc \<ge> 0.2\<close> and H1-1b exactly when \<open>Pr / Pc < 0.2\<close>, with
  \<open>interaccion = Pr / Pc + (8 / 9) * (Mrx / Mcx + Mry / Mcy)\<close> in the first case and
  \<open>interaccion = Pr / (2 * Pc) + (Mrx / Mcx + Mry / Mcy)\<close> in the second, and the verdict
  is \<open>'PASA'\<close> if and only if \<open>interaccion \<le> 1\<close>.
\<close>

theorem interaccion_ecuacion:
  assumes "compresion prev = Some rc" "Pc_de rc \<noteq> 0"
    and "flexion_eje_fuerte prev = Some ff" "Mb_de ff \<noteq> 0"
    and "flexion_eje_debil prev = Some fd" "Mb_de fd \<noteq> 0"
  shows "\<exists>r. verificar_interaccion_flexo_compresion c prev = Inr (Interaccion r)
          \<and> (ecuacion_aplicada r = ''H1-1a'' \<longleftrightarrow> \<bar>Pu c\<bar> / Pc_de rc \<ge> 0.2)
          \<and> (ecuacion_aplicada r = ''H1-1b'' \<longleftrightarrow> \<bar>Pu c\<bar> / Pc_de rc < 0.2)
          \<and> (\<bar>Pu c\<bar> / Pc_de rc \<ge> 0.2 \<longrightarrow>
                interaccion r = \<bar>Pu c\<bar> / Pc_de rc
                                 + (8 / 9) * (\<bar>Mux c\<bar> / Mb_de ff + \<bar>Muy c\<bar> / Mb_de fd))
          \<and> (\<bar>Pu c\<bar> / Pc_de rc < 0.2 \<longrightarrow>
                interaccion r = \<bar>Pu c\<bar> / (2 * Pc_de rc)
                                 + (\<bar>Mux c\<bar> / Mb_de ff + \<bar>Muy c\<bar> / Mb_de fd))
          \<and> (estado r = ''PASA'' \<longleftrightarrow> interaccion r \<le> 1)"
proof (cases "\<bar>Pu c\<bar> / Pc_de rc \<ge> 0.2")
  case True
  then show ?thesis
    unfolding verificar_interaccion_flexo_compresion_def Let_def
    using assms by (simp add: py_div_ok)
next
  case False
  then show ?thesis
    unfolding verificar_interaccion_flexo_compresion_def Let_def
    using assms by (simp add: py_div_ok)
qed

theorem interaccion_ecuacion_witness:
  "(\<exists>r. verificar_interaccion_flexo_compresion cargas_interaccion_a
            (previos_ejemplo cargas_interaccion_a) = Inr (Interaccion r)
        \<and> ecuacion_aplicada r = ''H1-1a''
        \<and> interaccion r = 0.5 + (8 / 9) * (0.2 + 0.1)
        \<and> estado r = ''PASA'')
   \<and> (\<exists>r. verificar_interaccion_flexo_compresion cargas_interaccion_b
            (previos_ejemplo cargas_interaccion_b) = Inr (Interaccion r)
        \<and> ecuacion_aplicada r = ''H1-1b''
        \<and> interaccion r = 0.1 / 2 + (0.2 + 0.1)
        \<and> estado r = ''PASA'')"
proof (intro conjI)
  let ?rc = "the (compresion (previos_ejemplo cargas_interaccion_a))"
  let ?ff = "the (flexion_eje_fuerte (previos_ejemplo cargas_interaccion_a))"
  let ?fd = "the (flexion_eje_debil (previos_ejemplo cargas_interaccion_a))"
  have h: "compresion (previos_ejemplo cargas_interaccion_a) = Some ?rc" "Pc_de ?rc \<noteq> 0"
      "flexion_eje_fuerte (previos_ejemplo cargas_interaccion_a) = Some ?ff" "Mb_de ?ff \<noteq> 0"
      "flexion_eje_debil (previos_ejemplo cargas_interaccion_a) = Some ?fd" "Mb_de ?fd \<noteq> 0"
    by (simp_all add: previos_ejemplo_def Pc_de_def Mb_de_def)
  have v: "\<bar>Pu cargas_interaccion_a\<bar> / Pc_de ?rc = 0.5"
      "\<bar>Mux cargas_interaccion_a\<bar> / Mb_de ?ff = 0.2"
      "\<bar>Muy cargas_interaccion_a\<bar> / Mb_de ?fd = 0.1"
    by (simp_all add: previos_ejemplo_def Pc_de_def Mb_de_def cargas_interaccion_a_def)
  from interaccion_ecuacion [OF h, of cargas_interaccion_a]
  show "\<exists>r. verificar_interaccion_flexo_compresion cargas_interaccion_a
            (previos_ejemplo cargas_interaccion_a) = Inr (Interaccion r)
        \<and> ecuacion_aplicada r = ''H1-1a''
        \<and> interaccion r = 0.5 + (8 / 9) * (0.2 + 0.1)
        \<and> estado r = ''PASA''"
    unfolding v by auto
next
  let ?rc = "the (compresion (previos_ejemplo cargas_interaccion_b))"
  let ?ff = "the (flexion_eje_fuerte (previos_ejemplo cargas_interaccion_b))"
  let ?fd = "the (flexion_eje_debil (previos_ejemplo cargas_interaccion_b))"
  have h: "compresion (previos_ejemplo cargas_interaccion_b) = Some ?rc" "Pc_de ?rc \<noteq> 0"
      "flexion_eje_fuerte (previos_ejemplo cargas_interaccion_b) = Some ?ff" "Mb_de ?ff \<noteq> 0"
      "flexion_eje_debil (previos_ejemplo cargas_interaccion_b) = Some ?fd" "Mb_de ?fd \<noteq> 0"
    by (simp_all add: previos_ejemplo_def Pc_de_def Mb_de_def)
  have v: "\<bar>Pu cargas_interaccion_b\<bar> / Pc_de ?rc = 0.1"
      "\<bar>Pu cargas_interaccion_b\<bar> / (2 * Pc_de ?rc) = 0.1 / 2"
      "\<bar>Mux cargas_interaccion_b\<bar> / Mb_de ?ff = 0.2"
      "\<bar>Muy cargas_interaccion_b\<bar> / Mb_de ?fd = 0.1"
    by (simp_all add: previos_ejemplo_def Pc_de_def Mb_de_def cargas_interaccion_b_def)
  from interaccion_ecuacion [OF h, of cargas_interaccion_b]
  show "\<exists>r. verificar_interaccion_flexo_compresion cargas_interaccion_b
            (previos_ejemplo cargas_interaccion_b) = Inr (Interaccion r)
        \<and> ecuacion_aplicada r = ''H1-1b''
        \<and> interaccion r = 0.1 / 2 + (0.2 + 0.1)
        \<and> estado r = ''PASA''"
    unfolding v by auto
qed

text \<open>
  When the compression result is present and one of the two flexure results is absent, the
  capacity of the absent axis stays \<open>0\<close> and the quotient \<open>Mr / 0\<close> of the interaction
  formula raises, whatever the other values are. So \<open>validar_todo\<close> never returns for axial
  compression with exactly one nonzero moment.
\<close>

lemma py_div_eq_Inl: "py_div x y = Inl e \<longleftrightarrow> y = 0 \<and> e = ZeroDivisionError"
  by (auto simp: py_div_def)

lemma interaccion_eje_ausente:
  assumes "compresion prev = Some rc"
    and "flexion_eje_fuerte prev = None \<or> flexion_eje_debil prev = None"
  shows "verificar_interaccion_flexo_compresion c prev = Inl ZeroDivisionError"
proof (cases "Pc_de rc = 0")
  case True
  then show ?thesis
    unfolding verificar_interaccion_flexo_compresion_def Let_def
    using assms(1) by simp
next
  case False
  have "py_div \<bar>Mux c\<bar> 0 = Inl ZeroDivisionError" "py_div \<bar>Muy c\<bar> 0 = Inl ZeroDivisionError"
    by simp_all
  then show ?thesis
    unfolding verificar_interaccion_flexo_compresion_def Let_def
    using assms False
    by (auto simp: py_div_ok py_div_eq_Inl py_bind_def split: sum.splits option.splits)
qed

lemma validar_todo_un_momento:
  assumes "Pu c < 0" and "(Mux c = 0) \<noteq> (Muy c = 0)"
  shows "\<exists>e. validar_todo p c = Inl e"
proof -
  have "validar_todo p c \<noteq> Inr r" for r
  proof
    assume "validar_todo p c = Inr r"
    then obtain co ff fd clas i where
      co: "py_si (Pu c < 0) (verificar_compresion p c) = Inr co"
      and ff: "py_si (\<bar>Mux c\<bar> > 0) (verificar_flexion p c FUERTE) = Inr ff"
      and fd: "py_si (\<bar>Muy c\<bar> > 0) (verificar_flexion p c DEBIL) = Inr fd"
      and i: "verificar_interaccion_flexo_compresion c
                \<lparr>tension = None, compresion = co,
                        flexion_eje_fuerte = ff, flexion_eje_debil = fd,
                        clasificacion_seccion = clas,
                        interaccion_flexo_compresion = None\<rparr> = Inr i"
      unfolding validar_todo_def Let_def
      using assms by (auto simp: py_bind_eq_Inr py_si_def split: if_splits)
    from co assms(1) obtain rc where "co = Some rc"
      by (auto simp: py_si_def py_bind_eq_Inr)
    moreover from ff fd assms(2) have "ff = None \<or> fd = None"
      by (auto simp: py_si_def split: if_splits)
    ultimately show False
      using i interaccion_eje_ausente [of _ rc c] by simp
  qed
  then show ?thesis
    by (cases "validar_todo p c") auto
qed

subsection \<open>Compression: what the two paths return\<close>

lemma if_rama:
  "if C then (if C then a else b) = a \<and> (if C then x else y) = x
   else (if C then a else b) = b \<and> (if C then x else y) = y"
  by simp

lemma estado_pasa:
  "((if x \<le> 1.0 then ''PASA'' else ''FALLA'') = ''PASA'') = (x \<le> (1::real))"
  by simp

lemma no_esbeltos_campos:
  assumes "verificar_compresion_no_esbeltos p c = Inr r"
  shows "\<exists>s. raiz_E_Fy p = Inr s
           \<and> KL_r_gobernante r = max (Lx c / rx p) (Ly c / ry p)
           \<and> Fe r = pi\<^sup>2 * E p / (KL_r_gobernante r)\<^sup>2 \<and> Fe r \<noteq> 0
           \<and> lambda_c r = Fy p / Fe r
           \<and> (if KL_r_gobernante r \<le> 4.71 * s \<or> lambda_c r \<le> 2.25
               then Fcr r = 0.658 powr lambda_c r * Fy p \<and> modo_pandeo r = ''inelastico''
               else Fcr r = 0.877 * Fe r \<and> modo_pandeo r = ''elastico'')
           \<and> Pn r = Fcr r * A p \<and> Pc r = 0.9 * Pn r \<and> Pc r \<noteq> 0
           \<and> RDC r = \<bar>Pu c\<bar> / Pc r
           \<and> (estado r = ''PASA'' \<longleftrightarrow> RDC r \<le> 1)"
  using assms unfolding verificar_compresion_no_esbeltos_def Let_def
  apply (elim py_bindE)
  apply (simp only: py_div_eq_Inr sum.inject)
  apply (elim conjE)
  apply hypsubst
  apply (simp only: Resultado.select_convs Verificacion.select_convs VerificacionAxial.select_convs
           ResCompresion.select_convs)
  apply (rule exI, rule conjI, rule refl)
  apply (intro conjI refl)
  apply (simp_all only: refl simp_thms)
   apply (rule if_rama)
  apply (rule estado_pasa)
  done

lemma raiz_E_Fy_eq_Inr:
  "raiz_E_Fy p = Inr s \<longleftrightarrow> Fy p \<noteq> 0 \<and> 0 \<le> E p / Fy p \<and> s = sqrt (E p / Fy p)"
  by (auto simp: raiz_E_Fy_def py_bind_eq_Inr py_div_eq_Inr py_sqrt_eq_Inr)

lemma no_esbeltos_retorna:
  assumes "rx p \<noteq> 0" "ry p \<noteq> 0" "max (Lx c / rx p) (Ly c / ry p) \<noteq> 0"
    and "E p \<noteq> 0" "raiz_E_Fy p = Inr s" "A p \<noteq> 0"
  shows "\<exists>r. verificar_compresion_no_esbeltos p c = Inr r"
proof -
  have fy: "Fy p \<noteq> 0"
    using assms(5) by (simp add: raiz_E_Fy_eq_Inr)
  have k: "(max (Lx c / rx p) (Ly c / ry p))\<^sup>2 \<noteq> 0"
    using assms(3) by simp
  have fe: "pi\<^sup>2 * E p / (max (Lx c / rx p) (Ly c / ry p))\<^sup>2 \<noteq> 0"
    using assms(4) k by simp
  show ?thesis
    unfolding verificar_compresion_no_esbeltos_def Let_def
    using assms(1,2,5,6) k fe fy by (simp add: py_div_ok)
qed

lemma pandeo_global_campos:
  assumes "pandeo_global_esbeltos p c ae fy_mod be_p be_a = Inr r"
  shows "Ae r = ae \<and> Fy_mod r = fy_mod \<and> be_patin r = be_p \<and> be_alma r = be_a
           \<and> KL_r_gobernante r = max (Lx c / rx p) (Ly c / ry p)
           \<and> Fe r = pi\<^sup>2 * E p / (KL_r_gobernante r)\<^sup>2 \<and> Fe r \<noteq> 0
           \<and> 0 \<le> fy_mod / Fe r \<and> lambda_c r = sqrt (fy_mod / Fe r)
           \<and> fy_mod \<noteq> 0 \<and> 0 \<le> E p / fy_mod
           \<and> (if KL_r_gobernante r \<le> 4.71 * sqrt (E p / fy_mod) \<or> lambda_c r \<le> 2.25
               then Fcr r = 0.658 powr ((lambda_c r)\<^sup>2) * fy_mod
                    \<and> modo_pandeo r = ''inelastico''
               else Fcr r = 0.877 * Fe r \<and> modo_pandeo r = ''elastico'')
           \<and> Pn r = Fcr r * ae \<and> Pc r = 0.9 * Pn r \<and> Pc r \<noteq> 0
           \<and> RDC r = \<bar>Pu c\<bar> / Pc r
           \<and> (estado r = ''PASA'' \<longleftrightarrow> RDC r \<le> 1)"
  using assms unfolding pandeo_global_esbeltos_def Let_def
  apply (elim py_bindE)
  apply (simp only: py_div_eq_Inr py_sqrt_eq_Inr sum.inject)
  apply (elim conjE)
  apply hypsubst
  apply (simp only: Resultado.select_convs Verificacion.select_convs VerificacionAxial.select_convs
           ResCompresion.select_convs ResCompresionEsbeltos.select_convs)
  apply (intro conjI refl)
  apply (simp_all only: refl simp_thms)
   apply (rule if_rama)
  apply (rule estado_pasa)
  done

lemma pandeo_global_retorna:
  assumes "rx p \<noteq> 0" "ry p \<noteq> 0" "max (Lx c / rx p) (Ly c / ry p) \<noteq> 0"
    and "0 < E p" "0 < fy_mod" "ae \<noteq> 0"
  shows "\<exists>r. pandeo_global_esbeltos p c ae fy_mod be_p be_a = Inr r"
proof -
  let ?fe = "pi\<^sup>2 * E p / (max (Lx c / rx p) (Ly c / ry p))\<^sup>2"
  have k: "(max (Lx c / rx p) (Ly c / ry p))\<^sup>2 \<noteq> 0"
    using assms(3) by simp
  then have "0 < (max (Lx c / rx p) (Ly c / ry p))\<^sup>2"
    by (simp only: zero_less_power2 power_eq_0_iff) simp
  then have fe: "0 < ?fe"
    using assms(4) by (intro divide_pos_pos mult_pos_pos) simp_all
  then have fe0: "?fe \<noteq> 0" by (metis less_irrefl)
  have q: "0 \<le> fy_mod / ?fe"
    using fe assms(5) by (intro divide_nonneg_pos) simp_all
  have fm: "fy_mod \<noteq> 0" "0 \<le> E p / fy_mod"
    using assms(4,5) by simp_all
  have e0: "E p \<noteq> 0" using assms(4) by simp
  show ?thesis
    unfolding pandeo_global_esbeltos_def Let_def
    using assms(1,2,6) k fe0 q fm e0 by (simp add: py_div_ok py_sqrt_ok)
qed

lemma esbeltos_campos:
  assumes "verificar_compresion_esbeltos p c = Inr r"
  shows "\<exists>clas e3. clasificar_seccion p = Inr clas
           \<and> verificar_compresion_no_esbeltos p c = Inr e3
           \<and> be_patin_esbeltos p clas (Pc e3) = Inr (be_patin r)
           \<and> be_alma_esbeltos p clas (Pc e3) = Inr (be_alma r)
           \<and> Ae r = min (A p) (A p - 2 * (bf p - be_patin r) * tf p
                                  - (d p - 2 * tf p - be_alma r) * tw p)
           \<and> A p \<noteq> 0 \<and> Fy_mod r = Fy p * (Ae r / A p)
           \<and> pandeo_global_esbeltos p c (Ae r) (Fy_mod r) (be_patin r) (be_alma r) = Inr r"
proof -
  from assms obtain clas e3 be_p be_a q where
    cl: "clasificar_seccion p = Inr clas"
    and e3: "verificar_compresion_no_esbeltos p c = Inr e3"
    and bp: "be_patin_esbeltos p clas (Pc e3) = Inr be_p"
    and ba: "be_alma_esbeltos p clas (Pc e3) = Inr be_a"
    and q: "py_div (if A p - 2 * (bf p - be_p) * tf p - (d p - 2 * tf p - be_a) * tw p > A p
                    then A p
                    else A p - 2 * (bf p - be_p) * tf p - (d p - 2 * tf p - be_a) * tw p) (A p)
             = Inr q"
    and pg: "pandeo_global_esbeltos p c
               (if A p - 2 * (bf p - be_p) * tf p - (d p - 2 * tf p - be_a) * tw p > A p
                then A p
                else A p - 2 * (bf p - be_p) * tf p - (d p - 2 * tf p - be_a) * tw p)
               (Fy p * q) be_p be_a = Inr r"
    unfolding verificar_compresion_esbeltos_def Let_def
    by (elim py_bindE) (rule that, assumption+)
  let ?ae0 = "A p - 2 * (bf p - be_p) * tf p - (d p - 2 * tf p - be_a) * tw p"
  have m: "(if ?ae0 > A p then A p else ?ae0) = min (A p) ?ae0"
    by (simp add: min_def)
  note c = pandeo_global_campos [OF pg]
  have sel: "be_patin r = be_p" "be_alma r = be_a" "Ae r = min (A p) ?ae0" "Fy_mod r = Fy p * q"
    using c unfolding m by simp_all
  have a: "A p \<noteq> 0" "q = min (A p) ?ae0 / A p"
    using q unfolding m by (simp_all add: py_div_eq_Inr)
  show ?thesis
    using cl e3 bp ba pg a unfolding sel m by simp
qed

lemma esbeltos_eval:
  assumes "clasificar_seccion p = Inr clas"
    and "verificar_compresion_no_esbeltos p c = Inr e3"
    and "be_patin_esbeltos p clas (Pc e3) = Inr be_p"
    and "be_alma_esbeltos p clas (Pc e3) = Inr be_a"
    and "A p \<noteq> 0"
    and "ae = min (A p) (A p - 2 * (bf p - be_p) * tf p - (d p - 2 * tf p - be_a) * tw p)"
  shows "verificar_compresion_esbeltos p c =
           pandeo_global_esbeltos p c ae (Fy p * (ae / A p)) be_p be_a"
proof -
  let ?ae0 = "A p - 2 * (bf p - be_p) * tf p - (d p - 2 * tf p - be_a) * tw p"
  have m: "(if ?ae0 > A p then A p else ?ae0) = ae"
    unfolding assms(6) by (simp add: min_def)
  show ?thesis
    unfolding verificar_compresion_esbeltos_def Let_def
    by (simp only: assms(1-4) py_bind_Inr m py_div_ok [OF assms(5)])
qed

subsection \<open>The slender example section\<close>

lemma raiz_esbelto: "raiz_E_Fy perfil_esbelto = Inr 25"
proof -
  have "sqrt 625 = 25" by (rule sqrt_eqI) simp_all
  then show ?thesis
    by (simp add: raiz_E_Fy_def perfil_esbelto_def py_div_def py_sqrt_def)
qed

lemma clasificar_esbelto_valor:
  "clasificar_seccion perfil_esbelto =
     Inr \<lparr>patin_compresion = ''esbelta'', patin_flexion = ''esbelta'',
          alma_flexion = ''compacta'',
          relaciones = \<lparr>lambda_f = 50, lambda_w = 49,
                         lambda_p_f_comp = 14, lambda_r_f_comp = 37.25,
                         lambda_p_f_flex = 9.5, lambda_r_f_flex = 25,
                         lambda_p_w_flex = 94, lambda_r_w_flex = 142.5\<rparr>\<rparr>"
  by (simp add: clasificar_seccion_def raiz_esbelto Let_def clasificar_elemento_def py_div_def)
     (simp add: perfil_esbelto_def)

subsection \<open>Weak-axis flexure of a slender flange\<close>

text \<open>
  Whenever the weak-axis check reports the slender limit state, its nominal moment is
  \<open>0.70 * E / (bf / tf)\<^sup>2 * Sy\<close>: the source sets \<open>b = bf\<close> and divides by \<open>(b / tf)\<^sup>2\<close>.
\<close>

lemma debil_esbelta_Mn:
  assumes "verificar_flexion_eje_debil p c = Inr r" "estado_limite r = ''esbelta''"
  shows "Mn r = 0.70 * E p / (bf p / tf p)\<^sup>2 * Sy p"
  using assms unfolding verificar_flexion_eje_debil_def Let_def
  apply (elim py_bindE)
  subgoal for clas q fcr t
    apply (cases t)
    apply (clarsimp simp: py_bind_eq_Inr py_div_eq_Inr)
    apply (auto simp: py_bind_eq_Inr split: if_splits)
    done
  done

text \<open>
  C8 fails on the code. On the slender example section the flange ratio is
  \<open>bf / (2 * tf) = 50\<close>, for which the claim gives \<open>0.70 * E / 50\<^sup>2 * Sy = 224000\<close>; the
  check returns \<open>Mn = 56000\<close>, a quarter of it, because it divides by \<open>(bf / tf)\<^sup>2\<close>.
\<close>

theorem flexion_debil_esbelta:
  "verificar_flexion_eje_debil perfil_esbelto cargas_debil =
     Inr \<lparr>estado = ''PASA'',
          ecuaciones_ref = [''F6-3''],
          RDC = 10000 / 50400,
          Mn = 56000, Mb = 50400,
          estado_limite = ''esbelta'',
          clasificacion = ''esbelta'',
          Muy_aplicada = 10000\<rparr>
   \<and> bf perfil_esbelto / (2 * tf perfil_esbelto) = 50
   \<and> 0.70 * E perfil_esbelto / (bf perfil_esbelto / (2 * tf perfil_esbelto))\<^sup>2
        * Sy perfil_esbelto = 224000"
  unfolding verificar_flexion_eje_debil_def Let_def
  by (simp add: clasificar_esbelto_valor) (simp add: perfil_esbelto_def cargas_debil_def py_div_def)

subsection \<open>One absent flexure axis\<close>

text \<open>
  C4 fails on the code. For the example section under axial compression and a strong-axis
  moment only (\<open>Muy = 0\<close>), the compression check and the strong-axis check both return,
  and \<open>validar_todo\<close> raises \<open>ZeroDivisionError\<close> in the interaction check: the capacity
  of the absent weak axis stays \<open>0\<close> and \<open>Mry / Mcy\<close> divides by it.
\<close>

theorem validar_todo_un_momento_falla:
  "validar_todo perfil_ejemplo cargas_un_momento = Inl ZeroDivisionError
   \<and> (\<exists>rc. verificar_compresion perfil_ejemplo cargas_un_momento = Inr rc)
   \<and> (\<exists>rf. verificar_flexion perfil_ejemplo cargas_un_momento FUERTE = Inr rf)"
proof -
  let ?p = perfil_ejemplo and ?c = cargas_un_momento
  have sel: "Pu ?c = - 106200" "Mux ?c = 576000" "Muy ?c = 0"
    by (simp_all add: cargas_un_momento_def)
  obtain e3 where e3: "verificar_compresion_no_esbeltos ?p ?c = Inr e3"
    using no_esbeltos_retorna [of ?p ?c 25, OF _ _ _ _ raiz_ejemplo]
    by (auto simp: perfil_ejemplo_def cargas_un_momento_def)
  have co: "verificar_compresion ?p ?c = Inr (NoEsbeltos e3)"
    unfolding verificar_compresion_def
    by (simp add: clasificar_ejemplo_valor e3)
  have "verificar_flexion_eje_fuerte ?p ?c =
          Inr (res_fuerte \<lparr>patin_compresion = ''compacta'', patin_flexion = ''compacta'',
          alma_flexion = ''compacta'',
          relaciones = \<lparr>lambda_f = 5, lambda_w = 38,
                         lambda_p_f_comp = 14, lambda_r_f_comp = 37.25,
                         lambda_p_f_flex = 9.5, lambda_r_f_flex = 25,
                         lambda_p_w_flex = 94, lambda_r_w_flex = 142.5\<rparr>\<rparr>
               ?c (1.76 * ry ?p * 25) 731.25 7 (Fy ?p * Zx ?p) ''fluencia'' ''F2-1'')"
    by (rule fuerte_fluencia [OF clasificar_ejemplo_valor raiz_ejemplo rts_ejemplo Lr_ejemplo])
       (simp_all add: perfil_ejemplo_def cargas_un_momento_def)
  then obtain rf where rf: "verificar_flexion_eje_fuerte ?p ?c = Inr rf"
    by blast
  have ff: "verificar_flexion ?p ?c FUERTE = Inr (FlexionFuerte rf)"
    unfolding verificar_flexion_def by (simp add: rf)
  have "validar_todo ?p ?c = Inl ZeroDivisionError"
    unfolding validar_todo_def Let_def py_si_def
    by (simp add: sel co ff clasificar_ejemplo_valor interaccion_eje_ausente)
  with co ff show ?thesis by blast
qed

subsection \<open>The slender path against the standard path\<close>

lemma be_patin_no_esbelta:
  "patin_compresion clas \<noteq> ''esbelta'' \<Longrightarrow> be_patin_esbeltos p clas fn = Inr (bf p)"
  by (simp add: be_patin_esbeltos_def Let_def)

lemma be_alma_no_esbelta:
  "alma_flexion clas \<noteq> ''esbelta'' \<Longrightarrow> be_alma_esbeltos p clas fn = Inr (d p - 2 * tf p)"
  by (simp add: be_alma_esbeltos_def Let_def)

text \<open>
  When the slender path returns with the effective area equal to the gross area, its
  modified yield stress is \<open>Fy\<close>; if moreover it reports the same buckling mode as the
  standard path, the critical stress, the nominal capacity and the design capacity of the
  two paths are equal.
\<close>

lemma esbeltos_igual_mismo_modo:
  assumes "verificar_compresion_esbeltos p c = Inr e7"
    and "verificar_compresion_no_esbeltos p c = Inr e3"
    and "Ae e7 = A p" "modo_pandeo e7 = modo_pandeo e3"
  shows "Fy_mod e7 = Fy p \<and> Fcr e7 = Fcr e3 \<and> Pn e7 = Pn e3 \<and> Pc e7 = Pc e3"
proof -
  from esbeltos_campos [OF assms(1)]
  have a: "A p \<noteq> 0" and fm: "Fy_mod e7 = Fy p * (Ae e7 / A p)"
    and pg: "pandeo_global_esbeltos p c (Ae e7) (Fy_mod e7) (be_patin e7) (be_alma e7) = Inr e7"
    by blast+
  have fy: "Fy_mod e7 = Fy p"
    unfolding fm assms(3) using a by simp
  from pandeo_global_campos [OF pg]
  have kg7: "KL_r_gobernante e7 = max (Lx c / rx p) (Ly c / ry p)"
    and fe7: "Fe e7 = pi\<^sup>2 * E p / (KL_r_gobernante e7)\<^sup>2"
    and q7: "0 \<le> Fy p / Fe e7" and lc7: "lambda_c e7 = sqrt (Fy p / Fe e7)"
    and rama7: "if KL_r_gobernante e7 \<le> 4.71 * sqrt (E p / Fy p) \<or> lambda_c e7 \<le> 2.25
         then Fcr e7 = 0.658 powr ((lambda_c e7)\<^sup>2) * Fy p \<and> modo_pandeo e7 = ''inelastico''
         else Fcr e7 = 0.877 * Fe e7 \<and> modo_pandeo e7 = ''elastico''"
    and pn7: "Pn e7 = Fcr e7 * A p" and pc7: "Pc e7 = 0.9 * Pn e7"
    unfolding fy assms(3) by blast+
  from no_esbeltos_campos [OF assms(2)] obtain s where
    kg: "KL_r_gobernante e3 = max (Lx c / rx p) (Ly c / ry p)"
    and fe: "Fe e3 = pi\<^sup>2 * E p / (KL_r_gobernante e3)\<^sup>2"
    and lc: "lambda_c e3 = Fy p / Fe e3"
    and rama: "if KL_r_gobernante e3 \<le> 4.71 * s \<or> lambda_c e3 \<le> 2.25
               then Fcr e3 = 0.658 powr lambda_c e3 * Fy p \<and> modo_pandeo e3 = ''inelastico''
               else Fcr e3 = 0.877 * Fe e3 \<and> modo_pandeo e3 = ''elastico''"
    and pn: "Pn e3 = Fcr e3 * A p" and pc: "Pc e3 = 0.9 * Pn e3"
    by blast
  have fee: "Fe e7 = Fe e3"
    unfolding fe7 fe kg7 kg ..
  have l2: "(lambda_c e7)\<^sup>2 = lambda_c e3"
    unfolding lc7 lc fee using q7 [unfolded fee] by simp
  have "Fcr e7 = Fcr e3"
  proof (cases "modo_pandeo e3 = ''inelastico''")
    case True
    with rama have "Fcr e3 = 0.658 powr lambda_c e3 * Fy p"
      by (auto split: if_splits)
    moreover from True assms(4) rama7 have "Fcr e7 = 0.658 powr ((lambda_c e7)\<^sup>2) * Fy p"
      by (auto split: if_splits)
    ultimately show ?thesis
      unfolding l2 by simp
  next
    case False
    with rama have "Fcr e3 = 0.877 * Fe e3"
      by (auto split: if_splits)
    moreover from False assms(4) rama7 have "Fcr e7 = 0.877 * Fe e7"
      by (auto split: if_splits)
    ultimately show ?thesis
      unfolding fee by simp
  qed
  then show ?thesis
    unfolding pn7 pn pc7 pc using fy by simp
qed

text \<open>
  C2 fails on the code where the two paths choose different modes. The standard path
  tests \<open>Fy / Fe \<le> 2.25\<close>; the slender path sets \<open>lambda_c = sqrt (Fy_mod / Fe)\<close> and
  tests \<open>lambda_c \<le> 2.25\<close>, that is \<open>Fy_mod / Fe \<le> 5.0625\<close>. On the example section,
  which has no slender element, with \<open>KL / r = 160\<close> (\<open>Fy / Fe\<close> between 4 and 4.56):
  the slender path has \<open>Ae = A\<close> and \<open>Fy_mod = Fy\<close>, the standard path is elastic, the
  slender path is inelastic, and its critical stress, nominal capacity and design capacity
  are strictly smaller.
\<close>

theorem esbeltos_forzado_difiere:
  "\<exists>e3 e7. verificar_compresion_no_esbeltos perfil_ejemplo cargas_columna = Inr e3
      \<and> verificar_compresion_esbeltos perfil_ejemplo cargas_columna = Inr e7
      \<and> Ae e7 = A perfil_ejemplo \<and> Fy_mod e7 = Fy perfil_ejemplo
      \<and> modo_pandeo e3 = ''elastico'' \<and> modo_pandeo e7 = ''inelastico''
      \<and> Fcr e7 < Fcr e3 \<and> Pn e7 < Pn e3 \<and> Pc e7 < Pc e3"
proof -
  let ?p = perfil_ejemplo and ?c = cargas_columna
  define lam where "lam = 40.96 / pi\<^sup>2"
  have sel: "Lx ?c = 800" "Ly ?c = 800" "rx ?p = 13" "ry ?p = 5" "E ?p = 2000000"
      "Fy ?p = 3200" "A ?p = 118" "bf ?p = 20" "tf ?p = 2" "tw ?p = 1" "d ?p = 42"
    by (simp_all add: perfil_ejemplo_def cargas_columna_def)
  have kl: "max (Lx ?c / rx ?p) (Ly ?c / ry ?p) = 160"
    unfolding sel by simp
  have pi2: "0 < pi\<^sup>2" by simp
  have lam_lo: "4 \<le> lam"
    unfolding lam_def using pi2_cotas(2) pi2 by (simp add: field_simps)
  have lam_hi: "lam \<le> 40.96 / 9"
    unfolding lam_def using pi2_cotas(1) pi2 by (intro divide_left_mono) simp_all
  have lam_pos: "0 < lam" using lam_lo by linarith
  have fe_eq: "pi\<^sup>2 * 2000000 / 160\<^sup>2 = 3200 / lam"
    unfolding lam_def by (simp add: field_simps)
  \<comment> \<open>the standard path\<close>
  obtain e3 where e3: "verificar_compresion_no_esbeltos ?p ?c = Inr e3"
    using no_esbeltos_retorna [of ?p ?c 25, OF _ _ _ _ raiz_ejemplo]
    unfolding kl by (auto simp: sel)
  from no_esbeltos_campos [OF e3] obtain s where
      s: "raiz_E_Fy ?p = Inr s"
      and kg: "KL_r_gobernante e3 = max (Lx ?c / rx ?p) (Ly ?c / ry ?p)"
      and fe: "Fe e3 = pi\<^sup>2 * E ?p / (KL_r_gobernante e3)\<^sup>2"
      and lc: "lambda_c e3 = Fy ?p / Fe e3"
      and rama: "if KL_r_gobernante e3 \<le> 4.71 * s \<or> lambda_c e3 \<le> 2.25
                 then Fcr e3 = 0.658 powr lambda_c e3 * Fy ?p \<and> modo_pandeo e3 = ''inelastico''
                 else Fcr e3 = 0.877 * Fe e3 \<and> modo_pandeo e3 = ''elastico''"
      and pn: "Pn e3 = Fcr e3 * A ?p" and pc: "Pc e3 = 0.9 * Pn e3"
    by blast
  have s25: "s = 25"
    using s raiz_ejemplo by simp
  have kg': "KL_r_gobernante e3 = 160"
    using kg unfolding kl .
  have c3: "Fe e3 = 3200 / lam" "lambda_c e3 = 3200 / Fe e3" "KL_r_gobernante e3 = 160"
    using fe lc kg' unfolding kg' sel fe_eq by blast+
  have l3: "lambda_c e3 = lam"
    unfolding c3(1,2) using lam_pos by simp
  have "\<not> (KL_r_gobernante e3 \<le> 4.71 * s \<or> lambda_c e3 \<le> 2.25)"
    unfolding l3 c3(3) s25 using lam_lo by simp
  with rama have r3: "Fcr e3 = 0.877 * (3200 / lam)" "modo_pandeo e3 = ''elastico''"
    unfolding c3(1) by simp_all
  \<comment> \<open>the slender path, forced on the same section\<close>
  have ae: "118 = min (A ?p) (A ?p - 2 * (bf ?p - bf ?p) * tf ?p
                                - (d ?p - 2 * tf ?p - (d ?p - 2 * tf ?p)) * tw ?p)"
    unfolding sel by simp
  have ev: "verificar_compresion_esbeltos ?p ?c =
              pandeo_global_esbeltos ?p ?c 118 (Fy ?p * (118 / A ?p)) (bf ?p) (d ?p - 2 * tf ?p)"
    by (rule esbeltos_eval [OF clasificar_ejemplo_valor e3 _ _ _ ae])
       (simp_all add: be_patin_no_esbelta be_alma_no_esbelta sel)
  have fm: "Fy ?p * (118 / A ?p) = 3200"
    unfolding sel by simp
  obtain e7 where e7: "pandeo_global_esbeltos ?p ?c 118 3200 (bf ?p) (d ?p - 2 * tf ?p) = Inr e7"
    using pandeo_global_retorna [of ?p ?c 3200 118]
    unfolding kl by (auto simp: sel)
  from pandeo_global_campos [OF e7]
  have a7: "Ae e7 = 118" "Fy_mod e7 = 3200"
      and kg7: "KL_r_gobernante e7 = max (Lx ?c / rx ?p) (Ly ?c / ry ?p)"
      and fe7: "Fe e7 = pi\<^sup>2 * E ?p / (KL_r_gobernante e7)\<^sup>2"
      and lc7: "lambda_c e7 = sqrt (3200 / Fe e7)"
      and rama7: "if KL_r_gobernante e7 \<le> 4.71 * sqrt (E ?p / 3200) \<or> lambda_c e7 \<le> 2.25
         then Fcr e7 = 0.658 powr ((lambda_c e7)\<^sup>2) * 3200 \<and> modo_pandeo e7 = ''inelastico''
         else Fcr e7 = 0.877 * Fe e7 \<and> modo_pandeo e7 = ''elastico''"
      and pn7: "Pn e7 = Fcr e7 * 118" and pc7: "Pc e7 = 0.9 * Pn e7"
    by blast+
  have kg7': "KL_r_gobernante e7 = 160"
    using kg7 unfolding kl .
  have c7: "Fe e7 = 3200 / lam"
    using fe7 unfolding kg7' sel fe_eq .
  have l7: "lambda_c e7 = sqrt lam"
    unfolding lc7 c7 using lam_pos by simp
  have "lam \<le> 2.25\<^sup>2"
    using lam_hi by (simp add: power2_eq_square)
  then have "sqrt lam \<le> 2.25"
    by (rule real_le_lsqrt [rotated]) simp
  then have "KL_r_gobernante e7 \<le> 4.71 * sqrt (E ?p / 3200) \<or> lambda_c e7 \<le> 2.25"
    unfolding l7 by simp
  with rama7 have "Fcr e7 = 0.658 powr ((lambda_c e7)\<^sup>2) * 3200"
      and m7: "modo_pandeo e7 = ''inelastico''"
    by simp_all
  moreover have "(sqrt lam)\<^sup>2 = lam"
    using lam_pos by simp
  ultimately have r7: "Fcr e7 = 0.658 powr lam * 3200"
    unfolding l7 by simp
  have "lam * (0.658 powr lam) < 0.877"
    by (rule inelastico_bajo_elastico) (use lam_lo in linarith)
  then have "0.658 powr lam < 0.877 / lam"
    using lam_pos by (simp add: field_simps)
  then have "0.658 powr lam * 3200 < 0.877 / lam * 3200"
    by (rule mult_strict_right_mono) simp
  then have f: "Fcr e7 < Fcr e3"
    unfolding r7 r3 by simp
  then have g: "Pn e7 < Pn e3" "Pc e7 < Pc e3"
    unfolding pn7 pn pc7 pc sel by simp_all
  have "verificar_compresion_esbeltos ?p ?c = Inr e7"
    unfolding ev fm by (rule e7)
  with e3 a7 r3(2) m7 f g show ?thesis
    unfolding sel by blast
qed

subsection \<open>The effective width of a slender flange\<close>

lemma clasificar_patin_compresion:
  assumes "clasificar_seccion p = Inr clas"
  shows "tf p \<noteq> 0 \<and> Fy p \<noteq> 0 \<and> 0 \<le> E p / Fy p
       \<and> patin_compresion clas =
           clasificar_elemento (bf p / (2 * tf p)) (0.56 * sqrt (E p / Fy p))
             (1.49 * sqrt (E p / Fy p))"
  using assms unfolding clasificar_seccion_def Let_def
  by (auto simp: py_bind_eq_Inr py_div_eq_Inr raiz_E_Fy_eq_Inr)

lemma clasificar_elemento_esbelta:
  "clasificar_elemento lam lp lr = ''esbelta'' \<longleftrightarrow> lp < lam \<and> lr < lam"
  by (auto simp: clasificar_elemento_def)

lemma limite_E7_bajo_limite_B4:
  assumes "0 \<le> (s::real)" and "1.49 * s < x"
  shows "1.03 * s < x"
proof -
  have "1.03 * s \<le> 1.49 * s"
    using assms(1) by (intro mult_right_mono) simp_all
  then show ?thesis
    using assms(2) by (rule le_less_trans)
qed

lemma ancho_esbelto_aux:
  assumes "py_bind (py_div w t2) (\<lambda>lam.
           py_bind R (\<lambda>s.
           py_bind (py_div (k * s) lam) (\<lambda>q.
             if lam > k * s then
               py_bind (py_div (F q) fn) (\<lambda>r1.
               py_bind (py_sqrt r1) (\<lambda>s1.
               py_bind (py_div (F q) fn) (\<lambda>r2.
               py_bind (py_sqrt r2) (\<lambda>s2.
                 Inr (w' * (1 - c1 * s1) * s2)))))
             else Inr w'))) = Inr b"
    and "R = Inr s0" and "k * s0 < w / t2"
  shows "b = w' * (1 - c1 * sqrt (F (k * s0 / (w / t2)) / fn)) * sqrt (F (k * s0 / (w / t2)) / fn)"
  using assms
  by (auto simp: py_bind_eq_Inr py_div_eq_Inr py_sqrt_eq_Inr split: if_splits)

lemma be_patin_esbelta_valor:
  assumes "be_patin_esbeltos p clas fn = Inr b"
    and "patin_compresion clas = ''esbelta''"
    and "raiz_E_Fy p = Inr s"
    and "1.03 * s < bf p / (2 * tf p)"
  shows "b = bf p
             * (1 - 0.22 * sqrt (min (1.49 * (1.03 * s / (bf p / (2 * tf p)))\<^sup>2 * Fy p) (Fy p) / fn))
             * sqrt (min (1.49 * (1.03 * s / (bf p / (2 * tf p)))\<^sup>2 * Fy p) (Fy p) / fn)"
proof -
  have e: "py_bind (py_div (bf p) (2 * tf p)) (\<lambda>lam_f.
           py_bind (raiz_E_Fy p) (\<lambda>s.
           py_bind (py_div (1.03 * s) lam_f) (\<lambda>q.
             if lam_f > 1.03 * s then
               py_bind (py_div (if 1.49 * q\<^sup>2 * Fy p > Fy p then Fy p else 1.49 * q\<^sup>2 * Fy p) fn) (\<lambda>r1.
               py_bind (py_sqrt r1) (\<lambda>s1.
               py_bind (py_div (if 1.49 * q\<^sup>2 * Fy p > Fy p then Fy p else 1.49 * q\<^sup>2 * Fy p) fn) (\<lambda>r2.
               py_bind (py_sqrt r2) (\<lambda>s2.
                 Inr (bf p * (1 - 0.22 * s1) * s2)))))
             else Inr (bf p)))) = Inr b"
    using assms(1) unfolding be_patin_esbeltos_def Let_def
    by (simp only: assms(2) simp_thms if_True)
  show ?thesis
    using ancho_esbelto_aux [OF e assms(3,4)]
    by (simp only: if_mayor_min)
qed

lemma ancho_esbelto_aux_retorna:
  assumes "t2 \<noteq> 0" "R = Inr s0" "w / t2 \<noteq> 0" "k * s0 < w / t2" "fn \<noteq> 0"
    and "0 \<le> F (k * s0 / (w / t2)) / fn"
  shows "py_bind (py_div w t2) (\<lambda>lam.
           py_bind R (\<lambda>s.
           py_bind (py_div (k * s) lam) (\<lambda>q.
             if lam > k * s then
               py_bind (py_div (F q) fn) (\<lambda>r1.
               py_bind (py_sqrt r1) (\<lambda>s1.
               py_bind (py_div (F q) fn) (\<lambda>r2.
               py_bind (py_sqrt r2) (\<lambda>s2.
                 Inr (w' * (1 - c1 * s1) * s2)))))
             else Inr w')))
         = Inr (w' * (1 - c1 * sqrt (F (k * s0 / (w / t2)) / fn)) * sqrt (F (k * s0 / (w / t2)) / fn))"
  using assms by (simp add: py_div_ok py_sqrt_ok)

lemma be_patin_esbelta_retorna:
  assumes "patin_compresion clas = ''esbelta''"
    and "raiz_E_Fy p = Inr s" "tf p \<noteq> 0" "bf p \<noteq> 0"
    and "1.03 * s < bf p / (2 * tf p)" "fn \<noteq> 0"
    and "0 \<le> min (1.49 * (1.03 * s / (bf p / (2 * tf p)))\<^sup>2 * Fy p) (Fy p) / fn"
  shows "be_patin_esbeltos p clas fn =
           Inr (bf p
             * (1 - 0.22 * sqrt (min (1.49 * (1.03 * s / (bf p / (2 * tf p)))\<^sup>2 * Fy p) (Fy p) / fn))
             * sqrt (min (1.49 * (1.03 * s / (bf p / (2 * tf p)))\<^sup>2 * Fy p) (Fy p) / fn))"
proof -
  have t2: "2 * tf p \<noteq> 0" "bf p / (2 * tf p) \<noteq> 0"
    using assms(3,4) by simp_all
  show ?thesis
    unfolding be_patin_esbeltos_def Let_def
    by (simp only: assms(1) simp_thms if_True if_mayor_min)
       (rule ancho_esbelto_aux_retorna
          [where F = "\<lambda>q. min (1.49 * q\<^sup>2 * Fy p) (Fy p)" and k = "1.03" and w = "bf p"
             and ?t2.0 = "2 * tf p" and ?s0.0 = s,
           OF t2(1) assms(2) t2(2) assms(5,6,7)])
qed

lemma esbeltos_ejemplo_retorna:
  "\<exists>r. verificar_compresion_esbeltos perfil_esbelto cargas_columna_corta = Inr r"
proof -
  let ?p = perfil_esbelto and ?c = cargas_columna_corta
  let ?clas = "\<lparr>patin_compresion = ''esbelta'', patin_flexion = ''esbelta'',
          alma_flexion = ''compacta'',
          relaciones = \<lparr>lambda_f = 50, lambda_w = 49,
                         lambda_p_f_comp = 14, lambda_r_f_comp = 37.25,
                         lambda_p_f_flex = 9.5, lambda_r_f_flex = 25,
                         lambda_p_w_flex = 94, lambda_r_w_flex = 142.5\<rparr>\<rparr> :: Clasificacion"
  have sel: "Lx ?c = 300" "Ly ?c = 300" "rx ?p = 20" "ry ?p = 10" "E ?p = 2000000"
      "Fy ?p = 3200" "A ?p = 100" "bf ?p = 50" "tf ?p = 0.5" "tw ?p = 1" "d ?p = 50"
    by (simp_all add: perfil_esbelto_def cargas_columna_corta_def)
  have kl: "max (Lx ?c / rx ?p) (Ly ?c / ry ?p) = 30"
    unfolding sel by simp
  define lam where "lam = 1.44 / pi\<^sup>2"
  have pi2: "0 < pi\<^sup>2" by simp
  have lam_pos: "0 < lam"
    unfolding lam_def using pi2 by simp
  have lam_le: "lam \<le> 1"
    unfolding lam_def using pi2_cotas(1) pi2 by (simp add: field_simps)
  have fe_eq: "pi\<^sup>2 * 2000000 / 30\<^sup>2 = 3200 / lam"
    unfolding lam_def by (simp add: field_simps)
  \<comment> \<open>the standard path gives the reference \<open>Fn\<close>\<close>
  obtain e3 where e3: "verificar_compresion_no_esbeltos ?p ?c = Inr e3"
    using no_esbeltos_retorna [of ?p ?c 25, OF _ _ _ _ raiz_esbelto]
    unfolding kl by (auto simp: sel)
  from no_esbeltos_campos [OF e3] obtain s where
      s: "raiz_E_Fy ?p = Inr s"
      and kg: "KL_r_gobernante e3 = max (Lx ?c / rx ?p) (Ly ?c / ry ?p)"
      and fe: "Fe e3 = pi\<^sup>2 * E ?p / (KL_r_gobernante e3)\<^sup>2"
      and lc: "lambda_c e3 = Fy ?p / Fe e3"
      and rama: "if KL_r_gobernante e3 \<le> 4.71 * s \<or> lambda_c e3 \<le> 2.25
                 then Fcr e3 = 0.658 powr lambda_c e3 * Fy ?p \<and> modo_pandeo e3 = ''inelastico''
                 else Fcr e3 = 0.877 * Fe e3 \<and> modo_pandeo e3 = ''elastico''"
      and pn: "Pn e3 = Fcr e3 * A ?p" and pc: "Pc e3 = 0.9 * Pn e3"
    by blast
  have s25: "s = 25"
    using s raiz_esbelto by simp
  have kg': "KL_r_gobernante e3 = 30"
    using kg unfolding kl .
  have fe': "Fe e3 = 3200 / lam"
    using fe unfolding kg' sel fe_eq .
  have l3: "lambda_c e3 = lam"
    unfolding lc fe' sel using lam_pos by simp
  have "KL_r_gobernante e3 \<le> 4.71 * s \<or> lambda_c e3 \<le> 2.25"
    unfolding kg' s25 by simp
  with rama have fcr: "Fcr e3 = 0.658 powr lam * 3200"
    unfolding l3 sel by simp
  have "(0.658::real) powr 1 \<le> 0.658 powr lam"
    using lam_le by (intro powr_mono') simp_all
  then have "0.658 \<le> (0.658::real) powr lam"
    by simp
  then have "189504 \<le> Pc e3"
    unfolding pc pn fcr sel by simp
  then have fn: "Pc e3 \<noteq> 0" "0 < Pc e3" "1264.5928 \<le> Pc e3"
    by simp_all
  \<comment> \<open>the effective widths\<close>
  define t where "t = sqrt (1264.5928 / Pc e3)"
  have fcl: "min (1.49 * (1.03 * 25 / (bf ?p / (2 * tf ?p)))\<^sup>2 * Fy ?p) (Fy ?p) = 1264.5928"
    unfolding sel by (simp add: power2_eq_square)
  have q: "0 \<le> 1264.5928 / Pc e3" "1264.5928 / Pc e3 \<le> 1"
    using fn by simp_all
  have bp: "be_patin_esbeltos ?p ?clas (Pc e3) = Inr (bf ?p * (1 - 0.22 * t) * t)"
    unfolding t_def fcl [symmetric]
    by (rule be_patin_esbelta_retorna [OF _ raiz_esbelto])
       (use q fn(1) in \<open>simp_all add: fcl\<close>, simp_all add: sel)
  have ba: "be_alma_esbeltos ?p ?clas (Pc e3) = Inr (d ?p - 2 * tf ?p)"
    by (rule be_alma_no_esbelta) simp
  have t0: "0 \<le> t" "t \<le> 1"
    unfolding t_def using q by (simp_all add: real_sqrt_le_1_iff)
  have b50: "0 \<le> bf ?p"
    unfolding sel by simp
  have bp0: "0 \<le> bf ?p * (1 - 0.22 * t) * t"
    using t0 b50 by (intro mult_nonneg_nonneg) simp_all
  define be_p where "be_p = bf ?p * (1 - 0.22 * t) * t"
  define ae where "ae = min (A ?p) (A ?p - 2 * (bf ?p - be_p) * tf ?p
                               - (d ?p - 2 * tf ?p - (d ?p - 2 * tf ?p)) * tw ?p)"
  have ae50: "50 \<le> ae"
    unfolding ae_def sel using bp0 [folded be_p_def] by simp
  have ev: "verificar_compresion_esbeltos ?p ?c =
              pandeo_global_esbeltos ?p ?c ae (Fy ?p * (ae / A ?p)) be_p (d ?p - 2 * tf ?p)"
    by (rule esbeltos_eval [OF clasificar_esbelto_valor e3 bp [folded be_p_def] ba _ ae_def])
       (simp add: sel)
  have "0 < Fy ?p * (ae / A ?p)"
    unfolding sel using ae50 by simp
  moreover have "ae \<noteq> 0"
    using ae50 by simp
  ultimately obtain r where
    "pandeo_global_esbeltos ?p ?c ae (Fy ?p * (ae / A ?p)) be_p (d ?p - 2 * tf ?p) = Inr r"
    using pandeo_global_retorna [of ?p ?c "Fy ?p * (ae / A ?p)" ae be_p "d ?p - 2 * tf ?p"]
    unfolding kl by (auto simp: sel)
  then show ?thesis
    unfolding ev by blast
qed

text \<open>
  C6. When the slender path returns and the section's flange is classified slender in
  compression, the flange ratio \<open>bf / (2 * tf)\<close> exceeds \<open>1.03 * sqrt (E / Fy)\<close> and the
  effective flange width of the result is
  \<open>bf * (1 - 0.22 * sqrt (Fcl / Fn)) * sqrt (Fcl / Fn)\<close>, where
  \<open>Fcl = min (1.49 * (1.03 * sqrt (E / Fy) / (bf / (2 * tf)))\<^sup>2 * Fy) Fy\<close> and \<open>Fn\<close> is the
  design capacity \<open>Pc = 0.9 * (Fcr * A)\<close> that the standard path returns on the same
  inputs: the factored capacity, not the critical stress.
\<close>

theorem ancho_efectivo_patin:
  assumes "verificar_compresion_esbeltos p c = Inr r"
    and "clasificar_seccion p = Inr clas"
    and "patin_compresion clas = ''esbelta''"
  shows "\<exists>e3. verificar_compresion_no_esbeltos p c = Inr e3
          \<and> Pc e3 = 0.9 * (Fcr e3 * A p)
          \<and> 1.03 * sqrt (E p / Fy p) < bf p / (2 * tf p)
          \<and> be_patin r =
              bf p
              * (1 - 0.22 * sqrt (min (1.49 * (1.03 * sqrt (E p / Fy p) / (bf p / (2 * tf p)))\<^sup>2
                                         * Fy p) (Fy p) / Pc e3))
              * sqrt (min (1.49 * (1.03 * sqrt (E p / Fy p) / (bf p / (2 * tf p)))\<^sup>2 * Fy p)
                          (Fy p) / Pc e3)"
proof -
  from esbeltos_campos [OF assms(1)] assms(2) obtain e3 where
    e3: "verificar_compresion_no_esbeltos p c = Inr e3"
    and bp: "be_patin_esbeltos p clas (Pc e3) = Inr (be_patin r)"
    by auto
  from no_esbeltos_campos [OF e3] have pc: "Pc e3 = 0.9 * (Fcr e3 * A p)"
    by auto
  from clasificar_patin_compresion [OF assms(2)]
  have pe: "patin_compresion clas =
              clasificar_elemento (bf p / (2 * tf p)) (0.56 * sqrt (E p / Fy p))
                (1.49 * sqrt (E p / Fy p))"
    by blast
  have "clasificar_elemento (bf p / (2 * tf p)) (0.56 * sqrt (E p / Fy p))
          (1.49 * sqrt (E p / Fy p)) = ''esbelta''"
    using assms(3) unfolding pe .
  then have "1.49 * sqrt (E p / Fy p) < bf p / (2 * tf p)"
    unfolding clasificar_elemento_esbelta by blast
  moreover have "0 \<le> sqrt (E p / Fy p)"
    using clasificar_patin_compresion [OF assms(2)] by simp
  ultimately have lim: "1.03 * sqrt (E p / Fy p) < bf p / (2 * tf p)"
    by (intro limite_E7_bajo_limite_B4)
  have rz: "raiz_E_Fy p = Inr (sqrt (E p / Fy p))"
    using clasificar_patin_compresion [OF assms(2)] by (simp add: raiz_E_Fy_eq_Inr)
  from be_patin_esbelta_valor [OF bp assms(3) rz lim] e3 pc lim show ?thesis
    by blast
qed

theorem ancho_efectivo_patin_witness:
  "\<exists>r clas. verificar_compresion_esbeltos perfil_esbelto cargas_columna_corta = Inr r
     \<and> clasificar_seccion perfil_esbelto = Inr clas \<and> patin_compresion clas = ''esbelta''
     \<and> (\<exists>e3. verificar_compresion_no_esbeltos perfil_esbelto cargas_columna_corta = Inr e3
            \<and> Pc e3 = 0.9 * (Fcr e3 * 100)
            \<and> be_patin r = 50 * (1 - 0.22 * sqrt (1264.5928 / Pc e3)) * sqrt (1264.5928 / Pc e3))"
proof -
  let ?p = perfil_esbelto and ?c = cargas_columna_corta
  let ?clas = "\<lparr>patin_compresion = ''esbelta'', patin_flexion = ''esbelta'',
          alma_flexion = ''compacta'',
          relaciones = \<lparr>lambda_f = 50, lambda_w = 49,
                         lambda_p_f_comp = 14, lambda_r_f_comp = 37.25,
                         lambda_p_f_flex = 9.5, lambda_r_f_flex = 25,
                         lambda_p_w_flex = 94, lambda_r_w_flex = 142.5\<rparr>\<rparr> :: Clasificacion"
  obtain r where r: "verificar_compresion_esbeltos ?p ?c = Inr r"
    using esbeltos_ejemplo_retorna by blast
  have cl: "patin_compresion ?clas = ''esbelta''"
    by simp
  have rz: "sqrt (E ?p / Fy ?p) = 25"
    using raiz_esbelto by (simp add: raiz_E_Fy_eq_Inr)
  have sel: "A ?p = 100" "bf ?p = 50"
    by (simp_all add: perfil_esbelto_def)
  have fcl: "min (1.49 * (1.03 * 25 / (bf ?p / (2 * tf ?p)))\<^sup>2 * Fy ?p) (Fy ?p) = 1264.5928"
    by (simp add: perfil_esbelto_def power2_eq_square)
  note th = ancho_efectivo_patin [OF r clasificar_esbelto_valor cl,
                unfolded rz, unfolded fcl, unfolded sel]
  from th obtain e3 where e3: "verificar_compresion_no_esbeltos ?p ?c = Inr e3"
    and pc: "Pc e3 = 0.9 * (Fcr e3 * 100)"
    and be: "be_patin r = 50 * (1 - 0.22 * sqrt (1264.5928 / Pc e3)) * sqrt (1264.5928 / Pc e3)"
    by (elim exE conjE) (rule that)
  show ?thesis
    by (intro exI [of _ r] exI [of _ ?clas] exI [of _ e3] conjI)
       (fact r clasificar_esbelto_valor cl e3 pc be)+
qed

end
